theory Spec2Isabelle
  imports Main "HOL-Library.Sublist" "HOL-Library.Log_Nat" "HOL-Library.Multiset"
begin

section \<open>JavaScript numbers\<close>

text \<open>
  A JavaScript number is an IEEE 754 binary64 value.  A finite value is represented by the
  rational number it denotes (\<open>Val 0\<close> is \<open>+0\<close>); the result of an
  arithmetic operation is the exact result rounded to the nearest representable value, ties
  to even (\<open>to_f64\<close>).
\<close>

datatype f64 = NaN | PosInf | NegInf | NegZero | Val rat

definition ilog2 :: "rat \<Rightarrow> int" where
  \<comment> \<open>for \<open>0 < q\<close>: the integer \<open>k\<close> with \<open>2 powi k \<le> q < 2 powi (k + 1)\<close>\<close>
  "ilog2 q = (if 1 \<le> q then bitlen \<lfloor>q\<rfloor> - 1 else - bitlen (\<lceil>1 / q\<rceil> - 1))"

definition round_half_even :: "rat \<Rightarrow> int" where
  "round_half_even x =
     (let f = \<lfloor>x\<rfloor>; d = x - of_int f
      in if d < 1 / 2 then f else if 1 / 2 < d then f + 1 else if even f then f else f + 1)"

definition f64_limit :: rat where
  \<comment> \<open>a rounded magnitude of this size or more is an overflow\<close>
  "f64_limit = 2 powi 1024"



definition round_mag :: "rat \<Rightarrow> rat option" where
  \<comment> \<open>for \<open>0 < q\<close>: 53 significant bits, least exponent \<open>-1074\<close>;
      \<open>None\<close> is overflow\<close>
  "round_mag q =
     (let p = max (ilog2 q - 52) (- 1074);
          v = of_int (round_half_even (q / 2 powi p)) * 2 powi p
      in if f64_limit \<le> v then None else Some v)"

definition to_f64 :: "rat \<Rightarrow> f64" where
  "to_f64 q =
     (if q = 0 then Val 0
      else if 0 < q then (case round_mag q of None \<Rightarrow> PosInf | Some v \<Rightarrow> Val v)
      else (case round_mag (- q) of
              None \<Rightarrow> NegInf
            | Some v \<Rightarrow> if v = 0 then NegZero else Val (- v)))"


fun is_finite :: "f64 \<Rightarrow> bool" where
  "is_finite (Val q) = True"
| "is_finite NegZero = True"
| "is_finite x = False"

fun is_inf :: "f64 \<Rightarrow> bool" where
  "is_inf PosInf = True"
| "is_inf NegInf = True"
| "is_inf x = False"

fun fval :: "f64 \<Rightarrow> rat" where
  "fval (Val q) = q"
| "fval x = 0"

fun sign_neg :: "f64 \<Rightarrow> bool" where
  "sign_neg NegInf = True"
| "sign_neg NegZero = True"
| "sign_neg (Val q) = (q < 0)"
| "sign_neg x = False"

definition is_zero :: "f64 \<Rightarrow> bool" where
  "is_zero x \<longleftrightarrow> x = NegZero \<or> x = Val 0"

definition signed_zero :: "bool \<Rightarrow> f64" where
  "signed_zero neg = (if neg then NegZero else Val 0)"

definition signed_inf :: "bool \<Rightarrow> f64" where
  "signed_inf neg = (if neg then NegInf else PosInf)"

text \<open>The operators \<open>*\<close>, \<open>/\<close>, \<open>+\<close>, \<open>-\<close> on numbers.\<close>

definition fmul :: "f64 \<Rightarrow> f64 \<Rightarrow> f64" where
  "fmul x y =
     (let neg = (sign_neg x \<noteq> sign_neg y) in
      if x = NaN \<or> y = NaN then NaN
      else if is_inf x \<or> is_inf y then (if is_zero x \<or> is_zero y then NaN else signed_inf neg)
      else if is_zero x \<or> is_zero y then signed_zero neg
      else to_f64 (fval x * fval y))"

definition fdiv :: "f64 \<Rightarrow> f64 \<Rightarrow> f64" where
  "fdiv x y =
     (let neg = (sign_neg x \<noteq> sign_neg y) in
      if x = NaN \<or> y = NaN then NaN
      else if is_inf x then (if is_inf y then NaN else signed_inf neg)
      else if is_inf y then signed_zero neg
      else if is_zero y then (if is_zero x then NaN else signed_inf neg)
      else if is_zero x then signed_zero neg
      else to_f64 (fval x / fval y))"

definition fadd :: "f64 \<Rightarrow> f64 \<Rightarrow> f64" where
  "fadd x y =
     (if x = NaN \<or> y = NaN then NaN
      else if is_inf x then (if is_inf y \<and> x \<noteq> y then NaN else x)
      else if is_inf y then y
      else if is_zero x \<and> is_zero y then signed_zero (sign_neg x \<and> sign_neg y)
      else to_f64 (fval x + fval y))"

fun fneg :: "f64 \<Rightarrow> f64" where
  "fneg NaN = NaN"
| "fneg PosInf = NegInf"
| "fneg NegInf = PosInf"
| "fneg NegZero = Val 0"
| "fneg (Val q) = (if q = 0 then NegZero else Val (- q))"

definition fsub :: "f64 \<Rightarrow> f64 \<Rightarrow> f64" where
  "fsub x y = fadd x (fneg y)"

text \<open>The comparisons \<open><\<close> and \<open>===\<close> on numbers.\<close>

fun flt :: "f64 \<Rightarrow> f64 \<Rightarrow> bool" where
  "flt NaN y = False"
| "flt x NaN = False"
| "flt PosInf y = False"
| "flt x PosInf = True"
| "flt x NegInf = False"
| "flt NegInf y = True"
| "flt x y = (fval x < fval y)"


text \<open>\<open>Math.max(a, b)\<close>; truthiness of a number, as \<open>||\<close> tests it.\<close>

definition Math_max :: "f64 \<Rightarrow> f64 \<Rightarrow> f64" where
  "Math_max a b =
     (if a = NaN \<or> b = NaN then NaN
      else if flt a b then b
      else if flt b a then a
      else if is_zero a \<and> is_zero b then signed_zero (sign_neg a \<and> sign_neg b)
      else a)"

definition truthy :: "f64 \<Rightarrow> bool" where
  "truthy x \<longleftrightarrow> x \<noteq> NaN \<and> \<not> is_zero x"

section \<open>JavaScript strings\<close>

text \<open>
  A JavaScript string is a sequence of UTF-16 code units; a code unit is modelled as a
  natural number.  ASCII literals are written with \<open>lit\<close>.
\<close>

type_synonym jsstring = "nat list"

definition lit :: "string \<Rightarrow> jsstring" where
  "lit s = map of_char s"

definition nl :: nat where "nl = 10"
definition bar :: nat where "bar = 124"

text \<open>The code units removed by \<open>String.prototype.trim\<close>: WhiteSpace and LineTerminator.\<close>

definition is_ws :: "nat \<Rightarrow> bool" where
  "is_ws c \<longleftrightarrow> c \<in> {9, 10, 11, 12, 13, 32, 160, 5760, 8232, 8233, 8239, 8287, 12288, 65279}
     \<or> (8192 \<le> c \<and> c \<le> 8202)"

definition trim :: "jsstring \<Rightarrow> jsstring" where
  "trim s = rev (dropWhile is_ws (rev (dropWhile is_ws s)))"

text \<open>\<open>s.split(sep)\<close> for a string separator: left to right, occurrences do not overlap.\<close>

function js_split :: "jsstring \<Rightarrow> jsstring \<Rightarrow> jsstring list" where
  "js_split sep [] = (if sep = [] then [] else [[]])"
| "js_split sep (x # xs) =
     (if sep = [] then map (\<lambda>c. [c]) (x # xs)
      else if prefix sep (x # xs) then [] # js_split sep (drop (length sep) (x # xs))
      else (case js_split sep xs of
              [] \<Rightarrow> [[x]]
            | w # ws \<Rightarrow> (x # w) # ws))"
  by pat_completeness auto
termination
  by (relation "measure (\<lambda>(sep, s). length s)") auto



section \<open>Expense items and the text area of the add/edit form\<close>

record expense_item =
  name :: jsstring
  originalName :: jsstring



definition parseLine :: "jsstring \<Rightarrow> expense_item" where
  "parseLine line =
     (let parts = js_split [bar, bar] line in
      if length parts > 1
      then \<lparr>name = trim (parts ! 1), originalName = trim (parts ! 0)\<rparr>
      else \<lparr>name = trim line, originalName = trim line\<rparr>)"

definition parseStringToItems :: "jsstring \<Rightarrow> expense_item list" where
  "parseStringToItems text =
     map parseLine (filter (\<lambda>line. trim line \<noteq> []) (js_split [nl] text))"



section \<open>Trips and expenses\<close>

text \<open>
  The \<open>items\<close> property of an expense object as it is found at run time: absent, the
  legacy array of strings (not empty, so that \<open>items[0]\<close> is a string), or an array of
  item objects.
\<close>

datatype items_field = NoItems | StringItems jsstring "jsstring list" | ObjItems "expense_item list"

text \<open>
  \<open>date\<close> is an ISO 8601 string in the source; the model keeps the instant it denotes,
  in milliseconds since the epoch, which is what \<open>new Date(date).getTime()\<close> reads.
  \<open>receiptImage\<close> is \<open>None\<close> when the property is \<open>undefined\<close> or absent.
  The type of the numeric properties is a parameter: \<open>f64\<close> in an object the program
  has built or Firestore has returned, \<open>f64 option\<close> in an object read from JSON text,
  where a number can have become \<open>null\<close>.
\<close>

record 'n expense_of =
  expense_id :: jsstring
  tripId :: jsstring
  storeName :: jsstring
  date :: int
  items :: items_field
  originalCurrency :: jsstring
  originalAmount :: 'n
  exchangeRate :: 'n
  totalTWD :: 'n
  paidByMe :: bool
  splitCount :: 'n
  myShareTWD :: 'n
  debtAmountTWD :: 'n
  isRepaid :: bool
  receiptImage :: "jsstring option"

type_synonym expense = "f64 expense_of"

record trip =
  trip_id :: jsstring
  trip_name :: jsstring
  startDate :: jsstring
  endDate :: jsstring
  budgetTWD :: "f64 option"

text \<open>\<open>xs.sort(cmp)\<close> with a comparator function: a stable sort.\<close>

fun insert_by :: "('a \<Rightarrow> 'a \<Rightarrow> int) \<Rightarrow> 'a \<Rightarrow> 'a list \<Rightarrow> 'a list" where
  "insert_by cmp x [] = [x]"
| "insert_by cmp x (y # ys) = (if cmp x y \<le> 0 then x # y # ys else y # insert_by cmp x ys)"

definition js_sort :: "('a \<Rightarrow> 'a \<Rightarrow> int) \<Rightarrow> 'a list \<Rightarrow> 'a list" where
  "js_sort cmp xs = foldr (insert_by cmp) xs []"

definition newest_first :: "expense \<Rightarrow> expense \<Rightarrow> int" where
  \<comment> \<open>\<open>(a, b) => new Date(b.date).getTime() - new Date(a.date).getTime()\<close>\<close>
  "newest_first a b = date b - date a"

section \<open>The persistence adapter on localStorage\<close>

text \<open>
  JSON has no infinities, no NaN and no negative zero: \<open>JSON.stringify\<close> writes
  \<open>NaN\<close> and the infinities as \<open>null\<close> and \<open>-0\<close> as \<open>0\<close>.  Every other number is
  read back by \<open>JSON.parse\<close> as it was written.
\<close>

definition json_number :: "f64 \<Rightarrow> f64 option" where
  \<comment> \<open>a number after \<open>JSON.stringify\<close> and \<open>JSON.parse\<close>; \<open>None\<close> is \<open>null\<close>\<close>
  "json_number x = (if is_finite x then Some (if x = NegZero then Val 0 else x) else None)"

text \<open>
  An expense object after \<open>JSON.stringify\<close> and \<open>JSON.parse\<close>: every number has gone
  through \<open>json_number\<close>; a property that is \<open>undefined\<close> is left out of the text and
  is absent again on reading; strings, booleans and arrays of items come back as they were.
\<close>

type_synonym stored_expense = "f64 option expense_of"

definition json_expense :: "expense \<Rightarrow> stored_expense" where
  "json_expense e =
     \<lparr>expense_id = expense_id e,
      tripId = tripId e,
      storeName = storeName e,
      date = date e,
      items = items e,
      originalCurrency = originalCurrency e,
      originalAmount = json_number (originalAmount e),
      exchangeRate = json_number (exchangeRate e),
      totalTWD = json_number (totalTWD e),
      paidByMe = paidByMe e,
      splitCount = json_number (splitCount e),
      myShareTWD = json_number (myShareTWD e),
      debtAmountTWD = json_number (debtAmountTWD e),
      isRepaid = isRepaid e,
      receiptImage = receiptImage e\<rparr>"

text \<open>
  The two keys of the adapter hold JSON text that the adapter has written with
  \<open>JSON.stringify\<close>; a cell of the model holds the value that \<open>JSON.parse\<close> reads
  from it (\<open>None\<close>: the key is absent).  \<open>other_keys\<close> counts the remaining keys of
  the storage, for \<open>localStorage.length\<close>.
\<close>

record local_storage =
  trips_cell :: "trip list option"
  expenses_cell :: "stored_expense list option"
  other_keys :: nat

datatype dom_error = QuotaExceededError | OtherDomError

text \<open>
  The browser decides whether \<open>setItem\<close> accepts a text, given here by the value it
  denotes; \<open>None\<close> is success.
\<close>

record browser =
  setItem_trips :: "trip list \<Rightarrow> dom_error option"
  setItem_expenses :: "stored_expense list \<Rightarrow> dom_error option"

datatype notice =
    AlertImageNotSaved       \<comment> \<open>storage full: the expense was saved, its image was not\<close>
  | AlertNoSpaceForExpense   \<comment> \<open>storage exhausted: the expense could not be saved\<close>
  | AlertCloudImageTooLarge  \<comment> \<open>image too large for the cloud: retake it or save without it\<close>
  | ConsoleError

definition migrateExpense :: "'n expense_of \<Rightarrow> 'n expense_of" where
  "migrateExpense e =
     (case items e of
        StringItems s ss \<Rightarrow>
          e\<lparr>items := ObjItems (map (\<lambda>itemStr. \<lparr>name = itemStr, originalName = itemStr\<rparr>) (s # ss))\<rparr>
      | NoItems \<Rightarrow> e\<lparr>items := ObjItems []\<rparr>
      | ObjItems xs \<Rightarrow> e)"

definition migrateExpenses :: "'n expense_of list \<Rightarrow> 'n expense_of list" where
  "migrateExpenses expenses = map migrateExpense expenses"

definition storage_length :: "local_storage \<Rightarrow> nat" where
  "storage_length st =
     (if trips_cell st = None then 0 else 1) + (if expenses_cell st = None then 0 else 1)
       + other_keys st"

definition isQuotaExceeded :: "local_storage \<Rightarrow> dom_error \<Rightarrow> bool" where
  "isQuotaExceeded st e \<longleftrightarrow> e = QuotaExceededError \<and> storage_length st \<noteq> 0"

definition getTrips :: "local_storage \<Rightarrow> trip list" where
  "getTrips st = (case trips_cell st of None \<Rightarrow> [] | Some ts \<Rightarrow> ts)"

definition getAllExpenses :: "local_storage \<Rightarrow> stored_expense list" where
  "getAllExpenses st =
     migrateExpenses (case expenses_cell st of None \<Rightarrow> [] | Some rawExpenses \<Rightarrow> rawExpenses)"

definition getExpensesForTrip :: "local_storage \<Rightarrow> jsstring \<Rightarrow> stored_expense list" where
  "getExpensesForTrip st tid = filter (\<lambda>e. tripId e = tid) (getAllExpenses st)"

text \<open>
  \<open>deleteTrip\<close> has no handler: an exception of \<open>setItem\<close> leaves the function at
  once.  The result is the exception, if any, and the storage left behind.
\<close>

definition deleteTrip :: "browser \<Rightarrow> jsstring \<Rightarrow> local_storage \<Rightarrow> dom_error option \<times> local_storage" where
  "deleteTrip br tid st =
     (let trips = filter (\<lambda>t. trip_id t \<noteq> tid) (getTrips st) in
      case setItem_trips br trips of
        Some err \<Rightarrow> (Some err, st)
      | None \<Rightarrow>
          (let st1 = st\<lparr>trips_cell := Some trips\<rparr>;
               allExpenses = getAllExpenses st1;
               remainingExpenses = filter (\<lambda>e. tripId e \<noteq> tid) allExpenses
           in case setItem_expenses br remainingExpenses of
                Some err \<Rightarrow> (Some err, st1)
              | None \<Rightarrow> (None, st1\<lparr>expenses_cell := Some remainingExpenses\<rparr>)))"

text \<open>
  \<open>saveExpense\<close> returns normally on every path.  The outcome records the storage left
  behind, the values handed to \<open>setItem\<close> in order, and what the user was shown.  The
  array that \<open>JSON.stringify\<close> turns into text holds the objects read from the storage,
  which are written as they were read, and after them the new expense, which is written as
  \<open>json_expense\<close> gives it.
\<close>

record save_outcome =
  storage_after :: local_storage
  writes :: "stored_expense list list"
  notices :: "notice list"

definition saveExpense :: "browser \<Rightarrow> expense \<Rightarrow> local_storage \<Rightarrow> save_outcome" where
  "saveExpense br e st =
     (let expenses = getAllExpenses st @ [json_expense e] in
      case setItem_expenses br expenses of
        None \<Rightarrow> \<lparr>storage_after = st\<lparr>expenses_cell := Some expenses\<rparr>,
                  writes = [expenses], notices = []\<rparr>
      | Some err \<Rightarrow>
          if isQuotaExceeded st err then
            (let expenseNoImg = e\<lparr>receiptImage := None\<rparr>;
                 retry = getAllExpenses st @ [json_expense expenseNoImg]
             in case setItem_expenses br retry of
                  None \<Rightarrow> \<lparr>storage_after = st\<lparr>expenses_cell := Some retry\<rparr>,
                            writes = [expenses, retry], notices = [AlertImageNotSaved]\<rparr>
                | Some err2 \<Rightarrow> \<lparr>storage_after = st, writes = [expenses, retry],
                                 notices = [AlertNoSpaceForExpense]\<rparr>)
          else \<lparr>storage_after = st, writes = [expenses], notices = [ConsoleError]\<rparr>)"

section \<open>The persistence adapter on Firestore\<close>

text \<open>
  A collection is a list of documents, each under its document id; the order of the list is
  the order in which a query returns them.  Every document written by the adapter carries the
  owner in \<open>userId\<close> beside the fields of the trip or expense, and these include the
  \<open>id\<close> field of the object saved.  On reading, \<open>{id: doc.id, ...doc.data()}\<close>
  lets the \<open>id\<close> of the data override the document id, so the object read is the payload.
\<close>

record 'a owned =
  payload :: 'a
  userId :: jsstring

record firestore =
  trips_coll :: "(jsstring \<times> trip owned) list"
  expenses_coll :: "(jsstring \<times> expense owned) list"

datatype cloud_error = NotAuthenticated | BackendUnavailable | ExceedsMaximumSize | InvalidReference

text \<open>
  What the adapter does not decide: who is signed in, whether the backend answers, the id
  that \<open>addDoc\<close> draws, and the size Firestore computes for a document.
\<close>

record cloud =
  currentUser :: "jsstring option"
  backend_down :: bool
  auto_id :: jsstring
  doc_bytes :: "expense owned \<Rightarrow> nat"

definition max_doc_bytes :: nat where
  "max_doc_bytes = 1048576"

definition getCurrentUserId :: "cloud \<Rightarrow> cloud_error + jsstring" where
  "getCurrentUserId env = (case currentUser env of None \<Rightarrow> Inl NotAuthenticated | Some uid \<Rightarrow> Inr uid)"

definition deleteDoc :: "jsstring \<Rightarrow> (jsstring \<times> 'a) list \<Rightarrow> (jsstring \<times> 'a) list" where
  "deleteDoc k coll = filter (\<lambda>d. fst d \<noteq> k) coll"

definition setDoc :: "jsstring \<Rightarrow> 'a \<Rightarrow> (jsstring \<times> 'a) list \<Rightarrow> (jsstring \<times> 'a) list" where
  "setDoc k v coll =
     (if k \<in> fst ` set coll then map (\<lambda>d. if fst d = k then (k, v) else d) coll
      else coll @ [(k, v)])"

definition fetchExpensesForTrip :: "cloud \<Rightarrow> jsstring \<Rightarrow> firestore \<Rightarrow> cloud_error + expense list" where
  "fetchExpensesForTrip env tid db =
     (case getCurrentUserId env of
        Inl err \<Rightarrow> Inl err
      | Inr uid \<Rightarrow>
          if backend_down env then Inl BackendUnavailable
          else
            (let docs = filter (\<lambda>d. tripId (payload (snd d)) = tid \<and> userId (snd d) = uid)
                          (expenses_coll db);
                 expenses = map (\<lambda>d. payload (snd d)) docs
             in Inr (js_sort newest_first expenses)))"

text \<open>
  The deletions of the expenses are issued one after the other while \<open>map\<close> builds the
  list of promises; \<open>doc\<close> throws on an empty id, which ends the loop with the earlier
  deletions already sent.
\<close>

fun delete_expense_docs :: "expense list \<Rightarrow> firestore \<Rightarrow> cloud_error option \<times> firestore" where
  "delete_expense_docs [] db = (None, db)"
| "delete_expense_docs (e # es) db =
     (if expense_id e = [] then (Some InvalidReference, db)
      else delete_expense_docs es (db\<lparr>expenses_coll := deleteDoc (expense_id e) (expenses_coll db)\<rparr>))"

definition deleteTrip_cloud :: "cloud \<Rightarrow> jsstring \<Rightarrow> firestore \<Rightarrow> cloud_error option \<times> firestore" where
  "deleteTrip_cloud env tid db =
     (if tid = [] then (Some InvalidReference, db)
      else if backend_down env then (Some BackendUnavailable, db)
      else
        (let db1 = db\<lparr>trips_coll := deleteDoc tid (trips_coll db)\<rparr> in
         case fetchExpensesForTrip env tid db1 of
           Inl err \<Rightarrow> (Some err, db1)
         | Inr expenses \<Rightarrow> delete_expense_docs expenses db1))"

definition safeExpense :: "expense \<Rightarrow> expense" where
  \<comment> \<open>\<open>items: Array.isArray(expense.items) ? expense.items : []\<close>\<close>
  "safeExpense e = e\<lparr>items := (case items e of NoItems \<Rightarrow> ObjItems [] | other \<Rightarrow> other)\<rparr>"

record cloud_save =
  returned :: "cloud_error + jsstring"
  db_after :: firestore
  shown :: "notice list"

definition saveExpense_cloud :: "cloud \<Rightarrow> expense \<Rightarrow> firestore \<Rightarrow> cloud_save" where
  "saveExpense_cloud env e db =
     (case getCurrentUserId env of
        Inl err \<Rightarrow> \<lparr>returned = Inl err, db_after = db, shown = [ConsoleError]\<rparr>
      | Inr uid \<Rightarrow>
          (let data = \<lparr>payload = safeExpense e, userId = uid\<rparr>;
               k = (if expense_id (safeExpense e) \<noteq> [] then expense_id (safeExpense e)
                    else auto_id env)
           in if backend_down env
              then \<lparr>returned = Inl BackendUnavailable, db_after = db, shown = [ConsoleError]\<rparr>
              else if max_doc_bytes < doc_bytes env data
              then \<lparr>returned = Inl ExceedsMaximumSize, db_after = db,
                     shown = [AlertCloudImageTooLarge, ConsoleError]\<rparr>
              else \<lparr>returned = Inr k,
                     db_after = db\<lparr>expenses_coll := setDoc k data (expenses_coll db)\<rparr>,
                     shown = []\<rparr>))"

section \<open>The add/edit form\<close>

text \<open>
  The state of the form when \<open>handleSave\<close> runs.  \<open>amount\<close> is a number or the empty
  string; \<open>image\<close> is \<open>None\<close> for \<open>null\<close>.
\<close>

datatype amount_input = Blank | Num f64

record form =
  form_storeName :: jsstring
  form_amount :: amount_input
  form_currency :: jsstring
  form_date :: jsstring
  form_itemsText :: jsstring
  form_rate :: f64
  form_isSplit :: bool
  form_totalPeople :: f64
  form_image :: "jsstring option"

record modal_props =
  prop_tripId :: jsstring
  prop_initialData :: "expense option"

text \<open>
  \<open>uuidv4()\<close> and the reading of the date field by \<open>new Date(date)\<close> (\<open>None\<close>: an
  invalid date, on which \<open>toISOString\<close> throws a \<open>RangeError\<close>) come from outside.
\<close>

record modal_env =
  uuidv4 :: jsstring
  Date_parse :: "jsstring \<Rightarrow> int option"

datatype js_error = RangeError | DAILY_LIMIT_REACHED

definition Number_of :: "amount_input \<Rightarrow> f64" where
  \<comment> \<open>\<open>Number(amount)\<close>\<close>
  "Number_of a = (case a of Blank \<Rightarrow> Val 0 | Num x \<Rightarrow> x)"

definition unnamed_store :: jsstring where
  \<comment> \<open>the three code units of the default store name\<close>
  "unnamed_store = [26410, 21629, 21517]"

definition handleSave :: "modal_env \<Rightarrow> modal_props \<Rightarrow> form \<Rightarrow> js_error + expense" where
  "handleSave env props f =
     (let numAmount = (if truthy (Number_of (form_amount f)) then Number_of (form_amount f) else Val 0);
          totalTWD' = fmul numAmount (form_rate f);
          splitCount' = (if form_isSplit f then Math_max (Val 1) (form_totalPeople f) else Val 1);
          myShareTWD' = fdiv totalTWD' splitCount';
          debtAmountTWD' = fsub totalTWD' myShareTWD'
      in case Date_parse env (form_date f) of
           None \<Rightarrow> Inl RangeError
         | Some finalDate \<Rightarrow>
             Inr \<lparr>expense_id =
                    (case prop_initialData props of
                       None \<Rightarrow> uuidv4 env
                     | Some d \<Rightarrow> if expense_id d \<noteq> [] then expense_id d else uuidv4 env),
                  tripId = prop_tripId props,
                  storeName = (if form_storeName f \<noteq> [] then form_storeName f else unnamed_store),
                  date = finalDate,
                  items = ObjItems (parseStringToItems (form_itemsText f)),
                  originalCurrency = form_currency f,
                  originalAmount = numAmount,
                  exchangeRate = form_rate f,
                  totalTWD = totalTWD',
                  paidByMe = True,
                  splitCount = splitCount',
                  myShareTWD = myShareTWD',
                  debtAmountTWD = debtAmountTWD',
                  isRepaid = (case prop_initialData props of None \<Rightarrow> False | Some d \<Rightarrow> isRepaid d),
                  receiptImage =
                    (case form_image f of
                       None \<Rightarrow> None
                     | Some img \<Rightarrow> if img \<noteq> [] then Some img else None)\<rparr>)"

section \<open>The exchange rate resolver\<close>

text \<open>
  The cache is one localStorage key holding a JSON object from currency codes to entries.
  A cell of the model is what reading the key finds: nothing, text that \<open>JSON.parse\<close>
  rejects, or the object.  JSON has no infinities and no NaN: \<open>JSON.stringify\<close> writes
  them as \<open>null\<close>, which is \<open>None\<close> in \<open>entry_rate\<close>.
\<close>

record cache_entry =
  entry_rate :: "f64 option"
  entry_date :: jsstring

datatype rate_cell = NoCache | BrokenCache | Cache "jsstring \<Rightarrow> cache_entry option"

text \<open>
  A call of the model either throws or answers; the answer may lack its text, and logging
  its grounding chunks may throw (the flag).
\<close>

datatype lookup_outcome = LookupThrows | Response bool "jsstring option"

text \<open>
  What the resolver takes from outside: the day (\<open>new Date().toISOString().split('T')[0]\<close>),
  the case mapping of strings, the model behind \<open>generateContent\<close> as a function of the
  prompt, and whether \<open>localStorage.setItem\<close> throws.
\<close>

record rate_env =
  today :: jsstring
  toUpperCase :: "jsstring \<Rightarrow> jsstring"
  generateContent :: "jsstring \<Rightarrow> lookup_outcome"
  setItem_throws :: bool

record rate_result =
  rate :: f64
  source :: jsstring

definition getRateFromCache :: "rate_env \<Rightarrow> rate_cell \<Rightarrow> jsstring \<Rightarrow> f64 option" where
  "getRateFromCache env cell currency =
     (case cell of
        NoCache \<Rightarrow> None
      | BrokenCache \<Rightarrow> None
      | Cache cache \<Rightarrow>
          (case cache currency of
             None \<Rightarrow> None
           | Some entry \<Rightarrow> if entry_date entry = today env then entry_rate entry else None))"

definition saveRateToCache :: "rate_env \<Rightarrow> rate_cell \<Rightarrow> jsstring \<Rightarrow> f64 \<Rightarrow> rate_cell" where
  "saveRateToCache env cell currency r =
     (case cell of
        BrokenCache \<Rightarrow> BrokenCache
      | other \<Rightarrow>
          (let cache = (case other of Cache c \<Rightarrow> c | _ \<Rightarrow> Map.empty);
               cache' = cache(currency \<mapsto> \<lparr>entry_rate = json_number r, entry_date = today env\<rparr>)
           in if setItem_throws env then cell else Cache cache'))"

definition is_digit :: "nat \<Rightarrow> bool" where
  "is_digit c \<longleftrightarrow> 48 \<le> c \<and> c \<le> 57"

definition num_char :: "nat \<Rightarrow> bool" where
  \<comment> \<open>the class \<open>[\d.]\<close>\<close>
  "num_char c \<longleftrightarrow> is_digit c \<or> c = 46"

definition match_number :: "jsstring \<Rightarrow> jsstring option" where
  \<comment> \<open>\<open>text.match(/[\d.]+/)\<close>: the first longest run of digits and dots\<close>
  "match_number text =
     (case dropWhile (\<lambda>c. \<not> num_char c) text of
        [] \<Rightarrow> None
      | c # cs \<Rightarrow> Some (takeWhile num_char (c # cs)))"

definition digits_value :: "jsstring \<Rightarrow> nat" where
  "digits_value ds = foldl (\<lambda>acc c. 10 * acc + (c - 48)) 0 ds"

text \<open>
  \<open>parseFloat\<close> on a run of digits and dots, where no sign, exponent or white space
  occurs: the longest prefix of the form digits, digits-dot-digits or dot-digits, read as
  a decimal number and rounded; \<open>NaN\<close> when there is no such prefix.
\<close>

definition parseFloat :: "jsstring \<Rightarrow> f64" where
  "parseFloat s =
     (let ip = takeWhile is_digit s;
          rest = dropWhile is_digit s;
          fp = (case rest of [] \<Rightarrow> [] | c # cs \<Rightarrow> if c = 46 then takeWhile is_digit cs else [])
      in if ip = [] \<and> fp = [] then NaN
         else to_f64 (of_nat (digits_value ip) + of_nat (digits_value fp) / 10 ^ length fp))"

definition rate_prompt :: "jsstring \<Rightarrow> jsstring" where
  "rate_prompt currency =
     lit ''What is the current exchange rate for 1 '' @ currency
     @ lit '' to New Taiwan Dollar (TWD)? Return ONLY the numeric rate (e.g. 0.21). Do not add any text.''"

text \<open>
  The result of \<open>fetchExchangeRate\<close>: what it returns, the cache it leaves, and the
  prompts it sent to the model.
\<close>

record rate_outcome =
  answer :: rate_result
  cell_after :: rate_cell
  lookups :: "jsstring list"

definition fetchExchangeRate :: "rate_env \<Rightarrow> jsstring \<Rightarrow> rate_cell \<Rightarrow> rate_outcome" where
  "fetchExchangeRate env currency cell =
     (if toUpperCase env currency = lit ''TWD''
      then \<lparr>answer = \<lparr>rate = Val 1, source = lit ''Default''\<rparr>, cell_after = cell, lookups = []\<rparr>
      else
        (case getRateFromCache env cell (toUpperCase env currency) of
           Some cachedRate \<Rightarrow>
             \<lparr>answer = \<lparr>rate = cachedRate, source = lit ''Cache (Today)''\<rparr>,
              cell_after = cell, lookups = []\<rparr>
         | None \<Rightarrow>
             (let prompt = rate_prompt currency;
                  failed = (\<lambda>why. \<lparr>answer = \<lparr>rate = Val 1, source = why\<rparr>, cell_after = cell,
                                     lookups = [prompt]\<rparr>)
              in case generateContent env prompt of
                   LookupThrows \<Rightarrow> failed (lit ''Error'')
                 | Response logging_throws response_text \<Rightarrow>
                     if logging_throws then failed (lit ''Error'')
                     else
                       (case response_text of
                          None \<Rightarrow> failed (lit ''Error'')
                        | Some text \<Rightarrow>
                            if text = [] then failed (lit ''Error'')
                            else
                              (let r = (case match_number text of
                                          None \<Rightarrow> Val 0
                                        | Some m \<Rightarrow> parseFloat m)
                               in if flt (Val 0) r
                                  then \<lparr>answer = \<lparr>rate = r, source = lit ''Google Search''\<rparr>,
                                        cell_after =
                                          saveRateToCache env cell (toUpperCase env currency) r,
                                        lookups = [prompt]\<rparr>
                                  else failed (lit ''Failed''))))))"

text \<open>
  The words of the specification about a failed lookup.  The numeric tokens of a text are
  all its longest runs of digits and dots, from left to right; a token is positive when
  \<open>parseFloat\<close> reads a number greater than zero from it.  A lookup fails when it throws
  (the call itself, or the logging of what it returned), when its response has no text, or
  when the text holds no positive token.
\<close>

function number_tokens :: "jsstring \<Rightarrow> jsstring list" where
  "number_tokens text =
     (case dropWhile (\<lambda>c. \<not> num_char c) text of
        [] \<Rightarrow> []
      | c # cs \<Rightarrow> takeWhile num_char (c # cs) # number_tokens (dropWhile num_char cs))"
  by pat_completeness auto
termination
proof (relation "measure length")
  show "wf (measure length)" by simp
next
  fix s :: jsstring and c cs
  assume a: "dropWhile (\<lambda>c. \<not> num_char c) s = c # cs"
  have "length (dropWhile num_char cs) \<le> length cs" by (rule length_dropWhile_le)
  also have "length cs < length (c # cs)" by simp
  also have "\<dots> \<le> length s" unfolding a [symmetric] by (rule length_dropWhile_le)
  finally show "(dropWhile num_char cs, s) \<in> measure length" by simp
qed

declare number_tokens.simps [simp del]

definition positive_token :: "jsstring \<Rightarrow> bool" where
  "positive_token tok \<longleftrightarrow> flt (Val 0) (parseFloat tok)"

definition lookup_failed :: "lookup_outcome \<Rightarrow> bool" where
  "lookup_failed outcome =
     (case outcome of
        LookupThrows \<Rightarrow> True
      | Response logging_throws response_text \<Rightarrow>
          logging_throws \<or>
          (case response_text of
             None \<Rightarrow> True
           | Some text \<Rightarrow> list_all (\<lambda>tok. \<not> positive_token tok) (number_tokens text)))"

section \<open>The receipt analysis gateway\<close>

record gemini_analysis_result =
  res_storeName :: jsstring
  res_date :: jsstring
  res_totalAmount :: f64
  res_currency :: jsstring
  res_items :: "expense_item list"
  res_exchangeRateToTWD :: f64

text \<open>
  The usage counter is one localStorage key with a date and a count (\<open>None\<close>: absent or
  unreadable, which the adapter reads as no use today).
\<close>

record api_usage =
  usage_date :: jsstring
  usage_count :: nat

datatype model_outcome = CallThrows | Answer "jsstring option"

text \<open>
  The value that \<open>JSON.parse\<close> reads from a text: an object with the properties of an
  analysis result, \<open>null\<close>, or any other value (a number, a string, an array, an object
  that lacks a property of the result or holds a value of another type in it, such as
  \<open>{}\<close>).  The cast \<open>as GeminiAnalysisResult\<close> checks nothing at run time, so
  \<open>analyzeReceipt\<close> can return each of them.
\<close>

datatype json_value = AnalysisResult gemini_analysis_result | JsonNull | OtherJson

text \<open>
  What \<open>analyzeReceipt\<close> takes from outside: the user's own key, whether the signed-in
  user is on the list of administrators, the day, the model's behaviour on the image,
  \<open>JSON.parse\<close> on the answer (\<open>None\<close>: a syntax error), and whether writing the
  counter throws.
\<close>

record gateway_env =
  userApiKey :: "jsstring option"
  isAdmin :: bool
  usage_today :: jsstring
  model :: "jsstring \<Rightarrow> model_outcome"
  JSON_parse :: "jsstring \<Rightarrow> json_value option"
  usage_write_throws :: bool

definition DAILY_API_LIMIT :: nat where
  "DAILY_API_LIMIT = 2"

definition getApiUsageToday :: "gateway_env \<Rightarrow> api_usage option \<Rightarrow> nat" where
  "getApiUsageToday env cell =
     (case cell of
        None \<Rightarrow> 0
      | Some usage \<Rightarrow> if usage_date usage \<noteq> usage_today env then 0 else usage_count usage)"

definition hasReachedDailyLimit :: "gateway_env \<Rightarrow> api_usage option \<Rightarrow> bool" where
  "hasReachedDailyLimit env cell \<longleftrightarrow> DAILY_API_LIMIT \<le> getApiUsageToday env cell"

definition incrementApiUsage :: "gateway_env \<Rightarrow> api_usage option \<Rightarrow> api_usage option" where
  "incrementApiUsage env cell =
     (if usage_write_throws env then cell
      else Some \<lparr>usage_date = usage_today env, usage_count = getApiUsageToday env cell + 1\<rparr>)"

definition has_key :: "gateway_env \<Rightarrow> bool" where
  \<comment> \<open>the truthiness of \<open>userApiKey\<close>\<close>
  "has_key env \<longleftrightarrow> (case userApiKey env of None \<Rightarrow> False | Some k \<Rightarrow> k \<noteq> [])"

definition fallback_result :: "gateway_env \<Rightarrow> gemini_analysis_result" where
  \<comment> \<open>the store name and the item name are placeholder texts, given by their code units\<close>
  "fallback_result env =
     \<lparr>res_storeName = [26410, 21629, 21517, 28040, 36027],
      res_date = usage_today env,
      res_totalAmount = Val 0,
      res_currency = lit ''TWD'',
      res_items = [\<lparr>name = [28961, 27861, 36776, 35672, 38917, 30446],
                    originalName = lit ''Unknown Item''\<rparr>],
      res_exchangeRateToTWD = Val 1\<rparr>"

text \<open>
  \<open>analyzeReceipt\<close> returns a value or throws; with it, the usage counter it leaves.
  The value is the fallback record, built in the handler, or whatever \<open>JSON.parse\<close> has
  read from the answer.
\<close>

definition analyzeReceipt ::
  "gateway_env \<Rightarrow> jsstring \<Rightarrow> api_usage option \<Rightarrow> (js_error + json_value) \<times> api_usage option" where
  "analyzeReceipt env base64Image cell =
     (if \<not> has_key env \<and> \<not> isAdmin env \<and> hasReachedDailyLimit env cell
      then (Inl DAILY_LIMIT_REACHED, cell)
      else
        (case model env base64Image of
           CallThrows \<Rightarrow> (Inr (AnalysisResult (fallback_result env)), cell)
         | Answer None \<Rightarrow> (Inr (AnalysisResult (fallback_result env)), cell)
         | Answer (Some text) \<Rightarrow>
             if text = [] then (Inr (AnalysisResult (fallback_result env)), cell)
             else
               (let cell' = (if \<not> has_key env \<and> \<not> isAdmin env
                             then incrementApiUsage env cell else cell)
                in case JSON_parse env text of
                     None \<Rightarrow> (Inr (AnalysisResult (fallback_result env)), cell')
                   | Some result \<Rightarrow> (Inr result, cell'))))"

text \<open>
  A failure of the model call, in the words of the specification: a network error (the call
  throws), missing response text, or a malformed response, which is a text that is not the
  JSON text of an analysis result.
\<close>

definition model_failed :: "gateway_env \<Rightarrow> model_outcome \<Rightarrow> bool" where
  "model_failed env outcome =
     (case outcome of
        CallThrows \<Rightarrow> True
      | Answer None \<Rightarrow> True
      | Answer (Some text) \<Rightarrow>
          text = [] \<or>
          (case JSON_parse env text of
             Some (AnalysisResult result) \<Rightarrow> False
           | other \<Rightarrow> True))"

text \<open>
  The failures that reach the handler of \<open>analyzeReceipt\<close>: the call throws, the
  response has no text, or \<open>JSON.parse\<close> throws on the text.
\<close>

definition failure_caught :: "gateway_env \<Rightarrow> model_outcome \<Rightarrow> bool" where
  "failure_caught env outcome =
     (case outcome of
        CallThrows \<Rightarrow> True
      | Answer None \<Rightarrow> True
      | Answer (Some text) \<Rightarrow> text = [] \<or> JSON_parse env text = None)"

definition model_called :: "gateway_env \<Rightarrow> api_usage option \<Rightarrow> bool" where
  \<comment> \<open>the daily limit does not stop the call\<close>
  "model_called env cell \<longleftrightarrow> has_key env \<or> isAdmin env \<or> \<not> hasReachedDailyLimit env cell"

text \<open>
  The state the adapter itself maintains: document ids are unique and not empty, and an
  expense document sits under the \<open>id\<close> of the expense it holds (\<open>setDoc\<close> with
  \<open>safeExpense.id\<close>).
\<close>

definition well_keyed :: "firestore \<Rightarrow> bool" where
  "well_keyed db \<longleftrightarrow> distinct (map fst (expenses_coll db)) \<and>
     list_all (\<lambda>d. fst d \<noteq> [] \<and> expense_id (payload (snd d)) = fst d) (expenses_coll db)"

section \<open>Example data\<close>

text \<open>Concrete trips, expenses and environments, used where a statement is evaluated.\<close>

definition cafe_expense :: expense where
  "cafe_expense =
     \<lparr>expense_id = lit ''e1'', tripId = lit ''T1'', storeName = lit ''Cafe'',
      date = 1704103200000,
      items = ObjItems [\<lparr>name = lit ''Coffee'', originalName = lit ''Coffee''\<rparr>],
      originalCurrency = lit ''JPY'', originalAmount = Val 1000, exchangeRate = Val (1 / 4),
      totalTWD = Val 250, paidByMe = True, splitCount = Val 1, myShareTWD = Val 250,
      debtAmountTWD = Val 0, isRepaid = False, receiptImage = None\<rparr>"

definition legacy_expense :: expense where
  "legacy_expense = cafe_expense\<lparr>items := StringItems (lit ''Coffee'') [lit ''Tea'']\<rparr>"

definition later_expense :: expense where
  "later_expense = cafe_expense\<lparr>expense_id := lit ''e2'', date := 1704189600000\<rparr>"

definition photo_expense :: expense where
  "photo_expense = cafe_expense\<lparr>expense_id := lit ''e3'', receiptImage := Some (lit ''data:image/jpeg;base64,AAAA'')\<rparr>"

definition refund_expense :: expense where
  \<comment> \<open>a refund of 5 at the rate 0, as the form saves it, with a receipt image\<close>
  "refund_expense =
     \<lparr>expense_id = lit ''e6'', tripId = lit ''T1'', storeName = lit ''Cafe'',
      date = 1704276000000,
      items = ObjItems [],
      originalCurrency = lit ''JPY'', originalAmount = Val (- 5), exchangeRate = Val 0,
      totalTWD = NegZero, paidByMe = True, splitCount = Val 1, myShareTWD = NegZero,
      debtAmountTWD = Val 0, isRepaid = False,
      receiptImage = Some (lit ''data:image/jpeg;base64,AAAA'')\<rparr>"

definition stored_refund :: stored_expense where
  \<comment> \<open>what \<open>JSON.parse\<close> reads from the text that \<open>JSON.stringify\<close> writes for it\<close>
  "stored_refund =
     \<lparr>expense_id = lit ''e6'', tripId = lit ''T1'', storeName = lit ''Cafe'',
      date = 1704276000000,
      items = ObjItems [],
      originalCurrency = lit ''JPY'', originalAmount = Some (Val (- 5)), exchangeRate = Some (Val 0),
      totalTWD = Some (Val 0), paidByMe = True, splitCount = Some (Val 1), myShareTWD = Some (Val 0),
      debtAmountTWD = Some (Val 0), isRepaid = False,
      receiptImage = Some (lit ''data:image/jpeg;base64,AAAA'')\<rparr>"

definition other_trip_expense :: expense where
  "other_trip_expense = cafe_expense\<lparr>expense_id := lit ''e4'', tripId := lit ''T2''\<rparr>"

definition tokyo_trip :: trip where
  "tokyo_trip = \<lparr>trip_id = lit ''T1'', trip_name = lit ''Tokyo'', startDate = lit ''2024-01-01'',
                 endDate = lit ''2024-01-05'', budgetTWD = None\<rparr>"

definition roomy_browser :: browser where
  "roomy_browser = \<lparr>setItem_trips = (\<lambda>ts. None), setItem_expenses = (\<lambda>es. None)\<rparr>"

definition tight_browser :: browser where
  \<comment> \<open>refuses a list of expenses as soon as one of them carries an image\<close>
  "tight_browser =
     \<lparr>setItem_trips = (\<lambda>ts. None),
      setItem_expenses = (\<lambda>es. if list_ex (\<lambda>e. receiptImage e \<noteq> None) es
                                then Some QuotaExceededError else None)\<rparr>"

definition full_browser :: browser where
  "full_browser = \<lparr>setItem_trips = (\<lambda>ts. None), setItem_expenses = (\<lambda>es. Some QuotaExceededError)\<rparr>"

definition alice_cloud :: cloud where
  "alice_cloud = \<lparr>currentUser = Some (lit ''alice''), backend_down = False,
                  auto_id = lit ''auto1'',
                  doc_bytes = (\<lambda>d. case receiptImage (payload d) of None \<Rightarrow> 400 | Some img \<Rightarrow> 2000000)\<rparr>"

definition bobs_expense :: expense where
  "bobs_expense = cafe_expense\<lparr>expense_id := lit ''e5''\<rparr>"

definition alice_db :: firestore where
  "alice_db =
     \<lparr>trips_coll = [(lit ''T1'', \<lparr>payload = tokyo_trip, userId = lit ''alice''\<rparr>)],
      expenses_coll = [(lit ''e1'', \<lparr>payload = cafe_expense, userId = lit ''alice''\<rparr>),
                       (lit ''e4'', \<lparr>payload = other_trip_expense, userId = lit ''alice''\<rparr>)]\<rparr>"

definition shared_db :: firestore where
  "shared_db =
     \<lparr>trips_coll = [(lit ''T1'', \<lparr>payload = tokyo_trip, userId = lit ''alice''\<rparr>)],
      expenses_coll = [(lit ''e1'', \<lparr>payload = cafe_expense, userId = lit ''alice''\<rparr>),
                       (lit ''e5'', \<lparr>payload = bobs_expense, userId = lit ''bob''\<rparr>)]\<rparr>"

definition legacy_db :: firestore where
  "legacy_db =
     \<lparr>trips_coll = [],
      expenses_coll = [(lit ''e1'', \<lparr>payload = legacy_expense, userId = lit ''alice''\<rparr>)]\<rparr>"

definition empty_db :: firestore where
  "empty_db = \<lparr>trips_coll = [], expenses_coll = []\<rparr>"

definition alice_storage :: local_storage where
  "alice_storage = \<lparr>trips_cell = Some [tokyo_trip],
                    expenses_cell = Some [json_expense cafe_expense, json_expense other_trip_expense],
                    other_keys = 0\<rparr>"

definition legacy_storage :: local_storage where
  "legacy_storage = \<lparr>trips_cell = None, expenses_cell = Some [json_expense legacy_expense],
                     other_keys = 0\<rparr>"

definition diary_storage :: local_storage where
  "diary_storage = \<lparr>trips_cell = None,
                    expenses_cell = Some [json_expense cafe_expense, json_expense later_expense],
                    other_keys = 0\<rparr>"

definition amounts_of :: "js_error + expense \<Rightarrow> (f64 \<times> f64 \<times> f64) option" where
  \<comment> \<open>total, own share and debt of a saved expense\<close>
  "amounts_of r = (case r of Inl err \<Rightarrow> None
                   | Inr e \<Rightarrow> Some (totalTWD e, myShareTWD e, debtAmountTWD e))"

definition tokyo_env :: modal_env where
  "tokyo_env = \<lparr>uuidv4 = lit ''e9'', Date_parse = (\<lambda>s. Some 1704189600000)\<rparr>"

definition tokyo_props :: modal_props where
  "tokyo_props = \<lparr>prop_tripId = lit ''T1'', prop_initialData = None\<rparr>"

definition blank_form :: form where
  "blank_form =
     \<lparr>form_storeName = [], form_amount = Blank, form_currency = lit ''TWD'',
      form_date = lit ''2024-01-02T10:00'', form_itemsText = [], form_rate = Val 1,
      form_isSplit = False, form_totalPeople = Val 1, form_image = None\<rparr>"

definition yen_form :: form where
  \<comment> \<open>1000 JPY at the rate 0.22, shared by four\<close>
  "yen_form = blank_form\<lparr>form_amount := Num (Val 1000), form_currency := lit ''JPY'',
                          form_rate := to_f64 (22 / 100), form_isSplit := True,
                          form_totalPeople := Val 4\<rparr>"



definition ascii_upper :: "jsstring \<Rightarrow> jsstring" where
  "ascii_upper s = map (\<lambda>c. if 97 \<le> c \<and> c \<le> 122 then c - 32 else c) s"

definition answering :: "jsstring \<Rightarrow> rate_env" where
  \<comment> \<open>2024-01-02, a writable storage, and a model that answers every prompt with the text\<close>
  "answering text =
     \<lparr>today = lit ''2024-01-02'', toUpperCase = ascii_upper,
      generateContent = (\<lambda>prompt. Response False (Some text)), setItem_throws = False\<rparr>"

definition nines :: jsstring where
  \<comment> \<open>310 times the digit 9\<close>
  "nines = 57 # replicate 309 57"

definition receipt_text :: jsstring where
  \<open>receipt_text = lit ''{"storeName":"Cafe","date":"2024-01-01","totalAmount":1000,"currency":"JPY","items":[],"exchangeRateToTWD":0.25}''\<close>

definition json_reader :: "jsstring \<Rightarrow> json_value option" where
  \<comment> \<open>\<open>JSON.parse\<close> on the texts of the examples\<close>
  "json_reader text =
     (if text = lit ''null'' then Some JsonNull
      else if text = lit ''{}'' then Some OtherJson
      else if text = receipt_text
      then Some (AnalysisResult
             \<lparr>res_storeName = lit ''Cafe'', res_date = lit ''2024-01-01'',
              res_totalAmount = Val 1000, res_currency = lit ''JPY'', res_items = [],
              res_exchangeRateToTWD = Val (1 / 4)\<rparr>)
      else None)"

definition offline_gateway :: gateway_env where
  "offline_gateway =
     \<lparr>userApiKey = None, isAdmin = False, usage_today = lit ''2024-01-02'',
      model = (\<lambda>image. CallThrows), JSON_parse = json_reader, usage_write_throws = False\<rparr>"

definition replying :: "jsstring \<Rightarrow> gateway_env" where
  \<comment> \<open>a model that answers every image with the text\<close>
  "replying text = offline_gateway\<lparr>model := (\<lambda>image. Answer (Some text))\<rparr>"

section \<open>Lemmas and theorems\<close>

subsection \<open>Rounding to a binary64 value\<close>

lemma powi_pos: "0 < (2::rat) powi k"
  by (simp add: power_int_def)

lemma powi_Suc: "(2::rat) powi (k + 1) = 2 * 2 powi k"
  by (simp add: power_int_add)

lemma powi_mono: "a \<le> b \<Longrightarrow> (2::rat) powi a \<le> 2 powi b"
  by (rule power_int_increasing) simp_all

lemma powi_strict_mono: "a < b \<Longrightarrow> (2::rat) powi a < 2 powi b"
  by (rule power_int_strict_increasing) simp_all

lemma powi_le_iff: "(2::rat) powi a \<le> 2 powi b \<longleftrightarrow> a \<le> b"
  by (meson linorder_not_less powi_mono powi_strict_mono)

lemma powi_less_iff: "(2::rat) powi a < 2 powi b \<longleftrightarrow> a < b"
  by (meson linorder_not_less powi_mono powi_strict_mono)

lemma ilog2_unique:
  assumes "2 powi k \<le> (q::rat)" "q < 2 powi (k + 1)" "2 powi j \<le> q" "q < 2 powi (j + 1)"
  shows "j = (k::int)"
proof -
  have "(2::rat) powi k < 2 powi (j + 1)" using assms by linarith
  then have "k < j + 1" by (simp add: powi_less_iff)
  moreover have "(2::rat) powi j < 2 powi (k + 1)" using assms by linarith
  then have "j < k + 1" by (simp add: powi_less_iff)
  ultimately show ?thesis by simp
qed

lemma ilog2_bounds:
  assumes "0 < q"
  shows "2 powi (ilog2 q) \<le> q \<and> q < 2 powi (ilog2 q + 1)"
proof (cases "1 \<le> q")
  case True
  define n where "n = \<lfloor>q\<rfloor>"
  have n: "1 \<le> n" "of_int n \<le> q" "q < of_int n + 1"
    using True floor_correct [of q] by (simp_all add: n_def le_floor_iff)
  from bitlen_bounds [of n] n(1) have b: "2 ^ nat (bitlen n - 1) \<le> n" "n < 2 ^ nat (bitlen n)"
    by simp_all
  have bl: "1 \<le> bitlen n" using n(1) by (simp add: bitlen_alt_def)
  have "(2::rat) powi (bitlen n - 1) = of_int (2 ^ nat (bitlen n - 1))"
    using bl by (simp add: power_int_def)
  also have "\<dots> \<le> of_int n" using b(1) by (simp only: of_int_le_iff)
  finally have lo: "(2::rat) powi (bitlen n - 1) \<le> q" using n(2) by simp
  have "n + 1 \<le> 2 ^ nat (bitlen n)" using b(2) by simp
  then have "(of_int (n + 1) :: rat) \<le> of_int (2 ^ nat (bitlen n))" by (simp only: of_int_le_iff)
  also have "\<dots> = (2::rat) powi (bitlen n)" using bl by (simp add: power_int_def)
  finally have hi: "q < 2 powi (bitlen n)" using n(3) by simp
  show ?thesis using True lo hi by (simp add: ilog2_def n_def)
next
  case False
  define r where "r = 1 / q"
  define c where "c = \<lceil>r\<rceil> - 1"
  have r: "1 < r" using False assms by (simp add: r_def)
  have c: "1 \<le> c" "of_int c < r" "r \<le> of_int c + 1"
    using r ceiling_correct [of r] by (simp_all add: c_def less_ceiling_iff)
  from bitlen_bounds [of c] c(1) have b: "2 ^ nat (bitlen c - 1) \<le> c" "c < 2 ^ nat (bitlen c)"
    by simp_all
  have bl: "1 \<le> bitlen c" using c(1) by (simp add: bitlen_alt_def)
  have "(2::rat) powi (bitlen c - 1) = of_int (2 ^ nat (bitlen c - 1))"
    using bl by (simp add: power_int_def)
  also have "\<dots> \<le> of_int c" using b(1) by (simp only: of_int_le_iff)
  finally have lo: "(2::rat) powi (bitlen c - 1) < r" using c(2) by simp
  have "c + 1 \<le> 2 ^ nat (bitlen c)" using b(2) by simp
  then have "(of_int (c + 1) :: rat) \<le> of_int (2 ^ nat (bitlen c))" by (simp only: of_int_le_iff)
  also have "\<dots> = (2::rat) powi (bitlen c)" using bl by (simp add: power_int_def)
  finally have hi: "r \<le> 2 powi (bitlen c)" using c(3) by simp
  have q: "q = 1 / r" using assms by (simp add: r_def)
  have "2 powi (- bitlen c) \<le> q"
    unfolding q power_int_minus_divide using hi r powi_pos [of "bitlen c"]
    by (simp add: frac_le)
  moreover have "q < 2 powi (- bitlen c + 1)"
  proof -
    have "1 / r < 1 / 2 powi (bitlen c - 1)"
      using lo powi_pos [of "bitlen c - 1"] by (simp add: frac_less2)
    also have "\<dots> = 2 powi (- (bitlen c - 1))" by (simp only: power_int_minus_divide)
    finally show ?thesis unfolding q by simp
  qed
  ultimately show ?thesis using False by (simp add: ilog2_def c_def r_def)
qed

lemma ilog2_eq:
  assumes "2 powi k \<le> (q::rat)" "q < 2 powi (k + 1)"
  shows "ilog2 q = k"
proof -
  have "0 < q" using assms(1) powi_pos [of k] by linarith
  from ilog2_bounds [OF this] assms show ?thesis
    using ilog2_unique by blast
qed


lemma round_half_even_int: "round_half_even (of_int m) = m"
  by (simp add: round_half_even_def)

lemma round_half_even_near:
  assumes "of_int m - 1 / 2 < x" "x < of_int m + 1 / 2"
  shows "round_half_even x = m"
proof -
  have f: "\<lfloor>x\<rfloor> = m \<or> \<lfloor>x\<rfloor> = m - 1"
  proof (cases "of_int m \<le> x")
    case True
    then have "\<lfloor>x\<rfloor> = m" using assms by (intro floor_unique) simp_all
    then show ?thesis ..
  next
    case False
    then have "\<lfloor>x\<rfloor> = m - 1" using assms by (intro floor_unique) simp_all
    then show ?thesis ..
  qed
  then show ?thesis
    using assms by (auto simp: round_half_even_def Let_def)
qed



lemma round_half_even_le: 
  assumes "x \<le> of_int N" shows "round_half_even x \<le> N"
proof (cases "x = of_int N")
  case True
  then show ?thesis by (simp add: round_half_even_int)
next
  case False
  then have "x < of_int N" using assms by simp
  then have "\<lfloor>x\<rfloor> < N" by (simp add: floor_less_iff)
  moreover have "round_half_even x \<le> \<lfloor>x\<rfloor> + 1"
    by (simp add: round_half_even_def Let_def)
  ultimately show ?thesis by simp
qed


lemma powi_diff: "(2::rat) powi (a - b) = 2 powi a / 2 powi b"
  by (simp add: power_int_diff)

lemma powi_add: "(2::rat) powi (a + b) = 2 powi a * 2 powi b"
  by (simp add: power_int_add)

lemma round_mag_cert:
  assumes "2 powi k \<le> (q::rat)" "q < 2 powi (k + 1)" "p = max (k - 52) (- 1074)"
    and "round_half_even (q / 2 powi p) = m" "of_int m * 2 powi p < f64_limit"
  shows "round_mag q = Some (of_int m * 2 powi p)"
  using assms ilog2_eq [OF assms(1,2)] by (simp add: round_mag_def Let_def)





lemma to_f64_pos_cert:
  assumes "2 powi k \<le> (q::rat)" "q < 2 powi (k + 1)"
    and "of_int m - 1 / 2 < q / 2 powi (max (k - 52) (- 1074))"
    and "q / 2 powi (max (k - 52) (- 1074)) < of_int m + 1 / 2"
    and "of_int m * 2 powi (max (k - 52) (- 1074)) < f64_limit"
  shows "to_f64 q = Val (of_int m * 2 powi (max (k - 52) (- 1074)))"
proof -
  have "0 < q" using assms(1) powi_pos [of k] by linarith
  moreover have "round_mag q = Some (of_int m * 2 powi (max (k - 52) (- 1074)))"
    using assms by (intro round_mag_cert [OF assms(1,2)] round_half_even_near) simp_all
  ultimately show ?thesis by (simp add: to_f64_def)
qed



lemma round_half_even_mono:
  assumes "x \<le> y" shows "round_half_even x \<le> round_half_even y"
proof (cases "\<lfloor>x\<rfloor> = \<lfloor>y\<rfloor>")
  case True
  then show ?thesis using assms by (auto simp: round_half_even_def Let_def)
next
  case False
  then have "\<lfloor>x\<rfloor> < \<lfloor>y\<rfloor>" using floor_mono [OF assms] by simp
  moreover have "round_half_even x \<le> \<lfloor>x\<rfloor> + 1" by (simp add: round_half_even_def Let_def)
  moreover have "\<lfloor>y\<rfloor> \<le> round_half_even y" by (simp add: round_half_even_def Let_def)
  ultimately show ?thesis by simp
qed

lemma round_mag_mono:
  assumes "0 < q1" "q1 \<le> q2" "round_mag q2 = Some v2"
  shows "\<exists>v1. round_mag q1 = Some v1 \<and> v1 \<le> v2"
proof -
  have q2: "0 < q2" using assms by simp
  define k1 where "k1 = ilog2 q1"
  define k2 where "k2 = ilog2 q2"
  define p1 where "p1 = max (k1 - 52) (- 1074)"
  define p2 where "p2 = max (k2 - 52) (- 1074)"
  define w1 :: rat where "w1 = of_int (round_half_even (q1 / 2 powi p1)) * 2 powi p1"
  define w2 :: rat where "w2 = of_int (round_half_even (q2 / 2 powi p2)) * 2 powi p2"
  have b1: "2 powi k1 \<le> q1" "q1 < 2 powi (k1 + 1)"
    using ilog2_bounds [OF assms(1)] by (simp_all add: k1_def)
  have b2: "2 powi k2 \<le> q2" "q2 < 2 powi (k2 + 1)"
    using ilog2_bounds [OF q2] by (simp_all add: k2_def)
  have "(2::rat) powi k1 < 2 powi (k2 + 1)" using b1 b2 assms(2) by linarith
  then have k: "k1 \<le> k2" by (simp add: powi_less_iff)
  then have p: "p1 \<le> p2" by (simp add: p1_def p2_def)
  have v2: "v2 = w2" "w2 < f64_limit"
    using assms(3) by (auto simp: round_mag_def Let_def w2_def p2_def k2_def split: if_splits)
  have "w1 \<le> w2"
  proof (cases "p1 = p2")
    case True
    have "q1 / 2 powi p1 \<le> q2 / 2 powi p2"
      unfolding True using assms(2) powi_pos [of p2] by (simp add: divide_right_mono)
    then have "round_half_even (q1 / 2 powi p1) \<le> round_half_even (q2 / 2 powi p2)"
      by (rule round_half_even_mono)
    then have "(of_int (round_half_even (q1 / 2 powi p1)) :: rat)
        \<le> of_int (round_half_even (q2 / 2 powi p2))" by (simp only: of_int_le_iff)
    then show ?thesis
      unfolding w1_def w2_def True using powi_pos [of p2] by (simp add: mult_right_mono)
  next
    case False
    with p have lt: "p1 < p2" by simp
    then have p2': "p2 = k2 - 52" unfolding p1_def p2_def by linarith
    have "q1 < 2 powi (p1 + 53)"
    proof -
      have "(2::rat) powi (k1 + 1) \<le> 2 powi (p1 + 53)" by (rule powi_mono) (simp add: p1_def)
      with b1(2) show ?thesis by simp
    qed
    also have "\<dots> = 2 ^ 53 * 2 powi p1" by (simp add: powi_add)
    finally have "q1 / 2 powi p1 < 2 ^ 53" using powi_pos [of p1] by (simp add: pos_divide_less_eq)
    then have "q1 / 2 powi p1 \<le> of_int (2 ^ 53)" by simp
    then have "round_half_even (q1 / 2 powi p1) \<le> 2 ^ 53" by (rule round_half_even_le)
    then have "(of_int (round_half_even (q1 / 2 powi p1)) :: rat) \<le> of_int (2 ^ 53)"
      by (simp only: of_int_le_iff)
    then have "w1 \<le> 2 ^ 53 * 2 powi p1"
      unfolding w1_def using powi_pos [of p1] by (simp add: mult_right_mono)
    also have "\<dots> = 2 powi (p1 + 53)" by (simp add: powi_add)
    also have "\<dots> \<le> 2 powi (p2 + 52)" by (rule powi_mono) (use lt in simp)
    also have "\<dots> = 2 ^ 52 * 2 powi p2" by (simp add: powi_add)
    also have "\<dots> \<le> w2"
    proof -
      have "2 powi (p2 + 52) \<le> q2" using b2(1) by (simp add: p2')
      then have "2 ^ 52 * 2 powi p2 \<le> q2" by (simp add: powi_add)
      then have "of_int (2 ^ 52) \<le> q2 / 2 powi p2"
        using powi_pos [of p2] by (simp add: pos_le_divide_eq)
      then have "round_half_even (of_int (2 ^ 52)) \<le> round_half_even (q2 / 2 powi p2)"
        by (rule round_half_even_mono)
      then have "2 ^ 52 \<le> round_half_even (q2 / 2 powi p2)"
        by (simp only: round_half_even_int)
      then have "(of_int (2 ^ 52) :: rat) \<le> of_int (round_half_even (q2 / 2 powi p2))"
        by (simp only: of_int_le_iff)
      then show ?thesis
        unfolding w2_def using powi_pos [of p2] by (simp add: mult_right_mono)
    qed
    finally show ?thesis .
  qed
  moreover have "round_mag q1 = Some w1"
    using calculation v2(2)
    by (simp add: round_mag_def Let_def w1_def p1_def k1_def)
  ultimately show ?thesis using v2(1) by simp
qed


lemma round_mag_pow:
  assumes "- 1074 \<le> j"
  shows "round_mag (2 powi j) = (if f64_limit \<le> 2 powi j then None else Some (2 powi j))"
proof -
  define p where "p = max (j - 52) (- 1074)"
  have pj: "p \<le> j" using assms by (simp add: p_def)
  have il: "ilog2 (2 powi j) = j" by (intro ilog2_eq) (simp_all add: powi_less_iff)
  have "(2::rat) powi j / 2 powi p = 2 powi (j - p)" by (simp only: powi_diff)
  also have "\<dots> = of_int (2 ^ nat (j - p))" using pj by (simp add: power_int_def)
  finally have x: "(2::rat) powi j / 2 powi p = of_int (2 ^ nat (j - p))" .
  have "of_int (round_half_even (2 powi j / 2 powi p)) * 2 powi p = (2::rat) powi j"
    unfolding x round_half_even_int unfolding x [symmetric] using powi_pos [of p] by simp
  then show ?thesis
    by (simp only: round_mag_def Let_def il p_def [symmetric])
qed

lemma round_mag_lower:
  assumes "2 powi j \<le> q" "- 1074 \<le> j" "round_mag q = Some v"
  shows "2 powi j \<le> v"
proof -
  from round_mag_mono [OF powi_pos assms(1) assms(3)]
  obtain v1 where v1: "round_mag (2 powi j) = Some v1" "v1 \<le> v" by blast
  from v1(1) round_mag_pow [OF assms(2)] have "v1 = 2 powi j"
    by (simp split: if_splits)
  with v1(2) show ?thesis by simp
qed




subsection \<open>The text area round trip\<close>



















subsection \<open>Sorting with a comparator\<close>

lemma mset_insert_by: "mset (insert_by cmp x xs) = add_mset x (mset xs)"
  by (induction xs) auto

lemma mset_js_sort: "mset (js_sort cmp xs) = mset xs"
  by (induction xs) (auto simp: js_sort_def mset_insert_by)

lemma set_insert_by: "set (insert_by cmp x xs) = insert x (set xs)"
  by (induction xs) auto

lemma set_js_sort: "set (js_sort cmp xs) = set xs"
  by (induction xs) (auto simp: js_sort_def set_insert_by)

lemma js_sort_Nil: "js_sort cmp [] = []"
  by (simp add: js_sort_def)

lemma sorted_insert_by_newest:
  "sorted_wrt (\<lambda>a b. date b \<le> date a) xs \<Longrightarrow>
   sorted_wrt (\<lambda>a b. date b \<le> date a) (insert_by newest_first x xs)"
  by (induction xs) (auto simp: set_insert_by newest_first_def)

lemma sorted_js_sort_newest: "sorted_wrt (\<lambda>a b. date b \<le> date a) (js_sort newest_first xs)"
  by (induction xs) (auto simp: js_sort_def sorted_insert_by_newest)

lemma sorted_wrt_adjacent:
  "sorted_wrt P xs \<Longrightarrow> Suc i < length xs \<Longrightarrow> P (xs ! i) (xs ! Suc i)"
  by (simp add: sorted_wrt_iff_nth_less)

subsection \<open>Fetching the expenses of a trip\<close>

text \<open>
  Claim C7, as amended.  With a user signed in and the backend answering,
  \<open>fetchExpensesForTrip\<close> returns exactly the expenses stored for that trip and that
  user, each as often as it is stored, newest first: of two adjacent elements the earlier
  has the later or the same date.  \<open>getExpensesForTrip\<close> of the localStorage adapter
  returns exactly the expenses of the trip as they are read from the storage, in stored
  order.
\<close>

theorem fetch_trip_expenses_newest_first:
  assumes "currentUser env = Some uid" and "\<not> backend_down env"
  shows "(\<exists>xs. fetchExpensesForTrip env tid db = Inr xs
           \<and> mset xs = mset (map (\<lambda>d. payload (snd d))
                 (filter (\<lambda>d. tripId (payload (snd d)) = tid \<and> userId (snd d) = uid)
                    (expenses_coll db)))
           \<and> (\<forall>i. Suc i < length xs \<longrightarrow> date (xs ! Suc i) \<le> date (xs ! i)))
       \<and> getExpensesForTrip st tid = filter (\<lambda>e. tripId e = tid) (getAllExpenses st)"
proof -
  let ?sel = "map (\<lambda>d. payload (snd d))
       (filter (\<lambda>d. tripId (payload (snd d)) = tid \<and> userId (snd d) = uid) (expenses_coll db))"
  have xs: "fetchExpensesForTrip env tid db = Inr (js_sort newest_first ?sel)"
    using assms by (simp add: fetchExpensesForTrip_def getCurrentUserId_def)
  have "\<forall>i. Suc i < length (js_sort newest_first ?sel) \<longrightarrow>
          date (js_sort newest_first ?sel ! Suc i) \<le> date (js_sort newest_first ?sel ! i)"
    using sorted_wrt_adjacent [OF sorted_js_sort_newest] by blast
  with xs show ?thesis
    by (simp add: mset_js_sort getExpensesForTrip_def)
qed

theorem fetch_trip_expenses_newest_first_witness:
  "currentUser alice_cloud = Some (lit ''alice'') \<and> \<not> backend_down alice_cloud
   \<and> fetchExpensesForTrip alice_cloud (lit ''T1'')
        \<lparr>trips_coll = [],
         expenses_coll = [(lit ''e1'', \<lparr>payload = cafe_expense, userId = lit ''alice''\<rparr>),
                          (lit ''e5'', \<lparr>payload = bobs_expense, userId = lit ''bob''\<rparr>),
                          (lit ''e4'', \<lparr>payload = other_trip_expense, userId = lit ''alice''\<rparr>),
                          (lit ''e2'', \<lparr>payload = later_expense, userId = lit ''alice''\<rparr>)]\<rparr>
      = Inr [later_expense, cafe_expense]
   \<and> date cafe_expense \<le> date later_expense
   \<and> getExpensesForTrip diary_storage (lit ''T1'') =
       [json_expense cafe_expense, json_expense later_expense]"
proof -
  have a: "currentUser alice_cloud = Some (lit ''alice'')" and b: "\<not> backend_down alice_cloud"
    by (simp_all add: alice_cloud_def)
  have "fetchExpensesForTrip alice_cloud (lit ''T1'')
        \<lparr>trips_coll = [],
         expenses_coll = [(lit ''e1'', \<lparr>payload = cafe_expense, userId = lit ''alice''\<rparr>),
                          (lit ''e5'', \<lparr>payload = bobs_expense, userId = lit ''bob''\<rparr>),
                          (lit ''e4'', \<lparr>payload = other_trip_expense, userId = lit ''alice''\<rparr>),
                          (lit ''e2'', \<lparr>payload = later_expense, userId = lit ''alice''\<rparr>)]\<rparr>
      = Inr [later_expense, cafe_expense]"
    by (simp add: fetchExpensesForTrip_def getCurrentUserId_def alice_cloud_def js_sort_def
        newest_first_def cafe_expense_def later_expense_def other_trip_expense_def
        bobs_expense_def lit_def)
  moreover have "date cafe_expense \<le> date later_expense"
    by (simp add: cafe_expense_def later_expense_def)
  moreover have "filter (\<lambda>e. tripId e = lit ''T1'') (getAllExpenses diary_storage)
      = [json_expense cafe_expense, json_expense later_expense]"
    by (simp add: getAllExpenses_def migrateExpenses_def migrateExpense_def diary_storage_def
        json_expense_def cafe_expense_def later_expense_def)
  ultimately show ?thesis
    using fetch_trip_expenses_newest_first [OF a b, of "lit ''T1''" empty_db diary_storage] a b
    by simp
qed

theorem local_fetch_unsorted_counterexample:
  "getExpensesForTrip diary_storage (lit ''T1'') =
     [json_expense cafe_expense, json_expense later_expense]
   \<and> date (json_expense cafe_expense) < date (json_expense later_expense)"
  by (simp add: getExpensesForTrip_def getAllExpenses_def migrateExpenses_def migrateExpense_def
      diary_storage_def json_expense_def cafe_expense_def later_expense_def)

subsection \<open>Legacy items\<close>

lemma migrateExpense_tripId: "tripId (migrateExpense e) = tripId e"
  by (simp add: migrateExpense_def split: items_field.splits)

lemma migrateExpense_idem: "migrateExpense (migrateExpense e) = migrateExpense e"
  by (simp add: migrateExpense_def split: items_field.splits)

text \<open>
  Claim C3, as amended.  For every expense record kept in localStorage whose \<open>items\<close>
  is a non-empty list of bare strings, the reads of the localStorage adapter
  (\<open>getAllExpenses\<close>, and \<open>getExpensesForTrip\<close> for its trip) return the record with
  each string \<open>s\<close> replaced by the item with \<open>name = s\<close> and \<open>originalName = s\<close>,
  at the same position and with every other field as stored.
\<close>

theorem local_read_migrates_legacy_items:
  assumes "expenses_cell st = Some raw" and "i < length raw"
    and "items (raw ! i) = StringItems s ss"
  shows "length (getAllExpenses st) = length raw
       \<and> getAllExpenses st ! i =
           (raw ! i)\<lparr>items := ObjItems (map (\<lambda>x. \<lparr>name = x, originalName = x\<rparr>) (s # ss))\<rparr>
       \<and> (raw ! i)\<lparr>items := ObjItems (map (\<lambda>x. \<lparr>name = x, originalName = x\<rparr>) (s # ss))\<rparr>
           \<in> set (getExpensesForTrip st (tripId (raw ! i)))"
proof -
  have l: "length (getAllExpenses st) = length raw"
    using assms by (simp add: getAllExpenses_def migrateExpenses_def)
  have n: "getAllExpenses st ! i =
           (raw ! i)\<lparr>items := ObjItems (map (\<lambda>x. \<lparr>name = x, originalName = x\<rparr>) (s # ss))\<rparr>"
    using assms by (simp add: getAllExpenses_def migrateExpenses_def migrateExpense_def)
  have "getAllExpenses st ! i \<in> set (getAllExpenses st)"
    using l assms(2) by simp
  then have "(raw ! i)\<lparr>items := ObjItems (map (\<lambda>x. \<lparr>name = x, originalName = x\<rparr>) (s # ss))\<rparr>
           \<in> set (getExpensesForTrip st (tripId (raw ! i)))"
    unfolding n by (simp add: getExpensesForTrip_def)
  with l n show ?thesis by simp
qed

theorem local_read_migrates_legacy_items_witness:
  "expenses_cell legacy_storage = Some [json_expense legacy_expense]
   \<and> items ([json_expense legacy_expense] ! 0) = StringItems (lit ''Coffee'') [lit ''Tea'']
   \<and> getAllExpenses legacy_storage =
       [(json_expense legacy_expense)
          \<lparr>items := ObjItems [\<lparr>name = lit ''Coffee'', originalName = lit ''Coffee''\<rparr>,
                              \<lparr>name = lit ''Tea'', originalName = lit ''Tea''\<rparr>]\<rparr>]
   \<and> getExpensesForTrip legacy_storage (lit ''T1'') =
       [(json_expense legacy_expense)
          \<lparr>items := ObjItems [\<lparr>name = lit ''Coffee'', originalName = lit ''Coffee''\<rparr>,
                              \<lparr>name = lit ''Tea'', originalName = lit ''Tea''\<rparr>]\<rparr>]"
proof -
  have a: "expenses_cell legacy_storage = Some [json_expense legacy_expense]"
    by (simp add: legacy_storage_def)
  have b: "(0::nat) < length [json_expense legacy_expense]" by simp
  have c: "items ([json_expense legacy_expense] ! 0) = StringItems (lit ''Coffee'') [lit ''Tea'']"
    by (simp add: json_expense_def legacy_expense_def)
  have t: "tripId (json_expense legacy_expense) = lit ''T1''"
    by (simp add: json_expense_def legacy_expense_def cafe_expense_def)
  from local_read_migrates_legacy_items [OF a b c]
  have "getAllExpenses legacy_storage ! 0 =
       (json_expense legacy_expense)
          \<lparr>items := ObjItems [\<lparr>name = lit ''Coffee'', originalName = lit ''Coffee''\<rparr>,
                              \<lparr>name = lit ''Tea'', originalName = lit ''Tea''\<rparr>]\<rparr>"
    and "length (getAllExpenses legacy_storage) = 1"
    by simp_all
  then have g: "getAllExpenses legacy_storage =
       [(json_expense legacy_expense)
          \<lparr>items := ObjItems [\<lparr>name = lit ''Coffee'', originalName = lit ''Coffee''\<rparr>,
                              \<lparr>name = lit ''Tea'', originalName = lit ''Tea''\<rparr>]\<rparr>]"
    by (cases "getAllExpenses legacy_storage") simp_all
  then have "getExpensesForTrip legacy_storage (lit ''T1'') =
       [(json_expense legacy_expense)
          \<lparr>items := ObjItems [\<lparr>name = lit ''Coffee'', originalName = lit ''Coffee''\<rparr>,
                              \<lparr>name = lit ''Tea'', originalName = lit ''Tea''\<rparr>]\<rparr>]"
    using t by (simp add: getExpensesForTrip_def)
  with a c g show ?thesis by simp
qed

theorem cloud_fetch_keeps_legacy_items_counterexample:
  "fetchExpensesForTrip alice_cloud (lit ''T1'') legacy_db = Inr [legacy_expense]
   \<and> items legacy_expense = StringItems (lit ''Coffee'') [lit ''Tea'']"
  by (simp add: fetchExpensesForTrip_def getCurrentUserId_def alice_cloud_def legacy_db_def
      legacy_expense_def cafe_expense_def js_sort_def)


subsection \<open>Deleting a trip\<close>

lemma delete_expense_docs_all:
  "\<forall>e \<in> set es. expense_id e \<noteq> [] \<Longrightarrow>
   delete_expense_docs es db =
     (None, db\<lparr>expenses_coll := filter (\<lambda>d. fst d \<notin> expense_id ` set es) (expenses_coll db)\<rparr>)"
proof (induction es arbitrary: db)
  case Nil
  then show ?case by simp
next
  case (Cons e es)
  from Cons.prems have "expense_id e \<noteq> []" and rest: "\<forall>e \<in> set es. expense_id e \<noteq> []"
    by simp_all
  have "filter (\<lambda>d. fst d \<notin> expense_id ` set es) (deleteDoc (expense_id e) (expenses_coll db))
      = filter (\<lambda>d. fst d \<notin> expense_id ` set (e # es)) (expenses_coll db)"
    unfolding deleteDoc_def filter_filter by (rule filter_cong) auto
  then show ?case
    using \<open>expense_id e \<noteq> []\<close> Cons.IH [OF rest] by simp
qed

lemma deleteTrip_cloud_result:
  assumes "tid \<noteq> []" "currentUser env = Some uid" "\<not> backend_down env" "well_keyed db"
  shows "deleteTrip_cloud env tid db =
    (None, \<lparr>trips_coll = filter (\<lambda>d. fst d \<noteq> tid) (trips_coll db),
            expenses_coll = filter (\<lambda>d. \<not> (tripId (payload (snd d)) = tid \<and> userId (snd d) = uid))
                              (expenses_coll db)\<rparr>)"
proof -
  let ?P = "\<lambda>d. tripId (payload (snd d)) = tid \<and> userId (snd d) = uid"
  let ?sel = "map (\<lambda>d. payload (snd d)) (filter ?P (expenses_coll db))"
  let ?db1 = "db\<lparr>trips_coll := deleteDoc tid (trips_coll db)\<rparr>"
  have f: "fetchExpensesForTrip env tid ?db1 = Inr (js_sort newest_first ?sel)"
    using assms by (simp add: fetchExpensesForTrip_def getCurrentUserId_def)
  have ne: "\<forall>e \<in> set (js_sort newest_first ?sel). expense_id e \<noteq> []"
    using assms(4) by (auto simp: set_js_sort well_keyed_def list_all_iff)
  have ids: "\<And>d. d \<in> set (expenses_coll db) \<Longrightarrow>
      fst d \<in> expense_id ` set (js_sort newest_first ?sel) \<longleftrightarrow> ?P d"
  proof -
    fix d assume d: "d \<in> set (expenses_coll db)"
    show "fst d \<in> expense_id ` set (js_sort newest_first ?sel) \<longleftrightarrow> ?P d"
    proof
      assume "fst d \<in> expense_id ` set (js_sort newest_first ?sel)"
      then obtain d' where d': "d' \<in> set (expenses_coll db)" "?P d'"
          "expense_id (payload (snd d')) = fst d"
        by (auto simp: set_js_sort)
      with assms(4) have k: "fst d' = fst d" by (auto simp: well_keyed_def list_all_iff)
      from assms(4) have "inj_on fst (set (expenses_coll db))"
        by (simp add: well_keyed_def distinct_map)
      from inj_onD [OF this k d'(1) d] have "d' = d" .
      with d'(2) show "?P d" by simp
    next
      assume "?P d"
      with d have "d \<in> set (filter ?P (expenses_coll db))"
        by simp
      then have "(\<lambda>d. payload (snd d)) d \<in> (\<lambda>d. payload (snd d)) ` set (filter ?P (expenses_coll db))"
        by (rule imageI)
      then have "payload (snd d) \<in> set (js_sort newest_first ?sel)"
        by (simp only: set_js_sort set_map)
      moreover from d assms(4) have "expense_id (payload (snd d)) = fst d"
        by (simp add: well_keyed_def list_all_iff)
      ultimately show "fst d \<in> expense_id ` set (js_sort newest_first ?sel)"
        by (intro image_eqI [where x = "payload (snd d)"]) simp_all
    qed
  qed
  have "filter (\<lambda>d. fst d \<notin> expense_id ` set (js_sort newest_first ?sel)) (expenses_coll db)
        = filter (\<lambda>d. \<not> ?P d) (expenses_coll db)"
    by (rule filter_cong) (simp_all add: ids)
  then show ?thesis
    using assms(1,3) f delete_expense_docs_all [OF ne, of ?db1]
    by (simp add: deleteTrip_cloud_def deleteDoc_def)
qed

lemma deleteTrip_cloud_success:
  assumes "deleteTrip_cloud env tid db = (None, db')"
  shows "tid \<noteq> [] \<and> \<not> backend_down env \<and> (\<exists>uid. currentUser env = Some uid)"
  using assms
  by (auto simp: deleteTrip_cloud_def fetchExpensesForTrip_def getCurrentUserId_def Let_def
      split: if_splits option.splits)

lemma map_filter_map_idem:
  "(\<And>x. f (f x) = f x) \<Longrightarrow> (\<And>x. P (f x) = P x) \<Longrightarrow>
   map f (filter P (map f xs)) = filter P (map f xs)"
  by (induction xs) auto

lemma deleteTrip_local_result:
  assumes "deleteTrip br tid st = (None, st')"
  shows "st' = st\<lparr>trips_cell := Some (filter (\<lambda>t. trip_id t \<noteq> tid) (getTrips st)),
                  expenses_cell := Some (filter (\<lambda>e. tripId e \<noteq> tid) (getAllExpenses st))\<rparr>"
  using assms
  by (auto simp: deleteTrip_def Let_def getAllExpenses_def split: option.splits)

text \<open>
  Claim C8, as amended.  After \<open>deleteTrip\<close> has completed without an error, the trip
  record is gone; every expense record of the trip is gone from localStorage, and from a
  well-keyed Firestore collection every expense record of the trip that belongs to the
  signed-in user; a fetch of the expenses of the trip then returns the empty list; every
  other expense record, of another trip or in Firestore of another user, is kept as it
  is read.
\<close>

theorem deleteTrip_cascade:
  assumes "well_keyed db" and "deleteTrip_cloud env tid db = (None, db')"
    and "deleteTrip br tid st = (None, st')"
  shows "tid \<notin> fst ` set (trips_coll db')
       \<and> (\<exists>uid. currentUser env = Some uid
            \<and> expenses_coll db' =
                filter (\<lambda>d. \<not> (tripId (payload (snd d)) = tid \<and> userId (snd d) = uid))
                  (expenses_coll db))
       \<and> fetchExpensesForTrip env tid db' = Inr []
       \<and> tid \<notin> trip_id ` set (getTrips st')
       \<and> getAllExpenses st' = filter (\<lambda>e. tripId e \<noteq> tid) (getAllExpenses st)
       \<and> getExpensesForTrip st' tid = []"
proof -
  from deleteTrip_cloud_success [OF assms(2)] obtain uid
    where c: "tid \<noteq> []" "\<not> backend_down env" "currentUser env = Some uid"
    by blast
  from deleteTrip_cloud_result [OF c(1) c(3) c(2) assms(1)] assms(2)
  have db': "db' = \<lparr>trips_coll = filter (\<lambda>d. fst d \<noteq> tid) (trips_coll db),
            expenses_coll = filter (\<lambda>d. \<not> (tripId (payload (snd d)) = tid \<and> userId (snd d) = uid))
                              (expenses_coll db)\<rparr>"
    by simp
  have 1: "tid \<notin> fst ` set (trips_coll db')"
    unfolding db' by auto
  have 2: "expenses_coll db' =
      filter (\<lambda>d. \<not> (tripId (payload (snd d)) = tid \<and> userId (snd d) = uid)) (expenses_coll db)"
    unfolding db' by simp
  have "filter (\<lambda>d. tripId (payload (snd d)) = tid \<and> userId (snd d) = uid) (expenses_coll db') = []"
    unfolding 2 filter_filter by (simp add: filter_empty_conv)
  then have 3: "fetchExpensesForTrip env tid db' = Inr []"
    using c by (simp add: fetchExpensesForTrip_def getCurrentUserId_def js_sort_Nil)
  note st' = deleteTrip_local_result [OF assms(3)]
  have 4: "tid \<notin> trip_id ` set (getTrips st')"
    unfolding st' by (auto simp: getTrips_def)
  have 5: "getAllExpenses st' = filter (\<lambda>e. tripId e \<noteq> tid) (getAllExpenses st)"
    unfolding st'
    by (simp add: getAllExpenses_def migrateExpenses_def map_filter_map_idem
        migrateExpense_idem migrateExpense_tripId)
  have 6: "getExpensesForTrip st' tid = []"
    unfolding getExpensesForTrip_def 5 filter_filter by (simp add: filter_empty_conv)
  from 1 2 3 4 5 6 c(3) show ?thesis by blast
qed

theorem deleteTrip_cascade_witness:
  "well_keyed alice_db
   \<and> deleteTrip_cloud alice_cloud (lit ''T1'') alice_db =
       (None, \<lparr>trips_coll = [],
               expenses_coll = [(lit ''e4'', \<lparr>payload = other_trip_expense, userId = lit ''alice''\<rparr>)]\<rparr>)
   \<and> deleteTrip roomy_browser (lit ''T1'') alice_storage =
       (None, \<lparr>trips_cell = Some [], expenses_cell = Some [json_expense other_trip_expense],
               other_keys = 0\<rparr>)
   \<and> fetchExpensesForTrip alice_cloud (lit ''T1'')
         \<lparr>trips_coll = [],
          expenses_coll = [(lit ''e4'', \<lparr>payload = other_trip_expense, userId = lit ''alice''\<rparr>)]\<rparr>
       = Inr []
   \<and> getExpensesForTrip
         \<lparr>trips_cell = Some [], expenses_cell = Some [json_expense other_trip_expense],
          other_keys = 0\<rparr>
         (lit ''T1'') = []"
proof -
  have k: "well_keyed alice_db"
    by (simp add: well_keyed_def alice_db_def cafe_expense_def other_trip_expense_def lit_def)
  have c: "deleteTrip_cloud alice_cloud (lit ''T1'') alice_db =
       (None, \<lparr>trips_coll = [],
               expenses_coll = [(lit ''e4'', \<lparr>payload = other_trip_expense, userId = lit ''alice''\<rparr>)]\<rparr>)"
    by (simp add: deleteTrip_cloud_def fetchExpensesForTrip_def getCurrentUserId_def
        alice_cloud_def alice_db_def deleteDoc_def js_sort_def cafe_expense_def
        other_trip_expense_def lit_def)
  have l: "deleteTrip roomy_browser (lit ''T1'') alice_storage =
       (None, \<lparr>trips_cell = Some [], expenses_cell = Some [json_expense other_trip_expense],
               other_keys = 0\<rparr>)"
    by (simp add: deleteTrip_def roomy_browser_def alice_storage_def getTrips_def
        getAllExpenses_def migrateExpenses_def migrateExpense_def tokyo_trip_def
        json_expense_def cafe_expense_def other_trip_expense_def lit_def)
  from deleteTrip_cascade [OF k c l] k c l show ?thesis by simp
qed

theorem cloud_delete_leaves_foreign_expense_counterexample:
  "deleteTrip_cloud alice_cloud (lit ''T1'') shared_db =
       (None, \<lparr>trips_coll = [],
               expenses_coll = [(lit ''e5'', \<lparr>payload = bobs_expense, userId = lit ''bob''\<rparr>)]\<rparr>)
   \<and> tripId bobs_expense = lit ''T1''"
  by (simp add: deleteTrip_cloud_def fetchExpensesForTrip_def getCurrentUserId_def
      alice_cloud_def shared_db_def deleteDoc_def js_sort_def cafe_expense_def
      bobs_expense_def lit_def)

subsection \<open>Saving an expense that does not fit\<close>

lemma json_number_negative_zero: "json_number NegZero = Some (Val 0)"
  by (simp add: json_number_def)

lemma json_number_not_finite:
  "json_number NaN = None" "json_number PosInf = None" "json_number NegInf = None"
  by (simp_all add: json_number_def)

lemma json_number_stable: "json_number x = Some y \<Longrightarrow> json_number y = Some y"
  by (cases x) (auto simp: json_number_def split: if_splits)

text \<open>
  Claim C6, as amended.  In the localStorage adapter, when the write of \<open>saveExpense\<close>
  is refused for lack of space (and the storage is not empty), the write is tried a second
  time, once, with \<open>receiptImage\<close> removed from the new expense.  If that write is
  accepted the stored record has no \<open>receiptImage\<close> and the user is told that the image
  was not saved; if it is refused too, nothing is stored and the user is told that the expense
  could not be saved; no exception reaches the caller.  What is written of the new expense is
  its JSON image: its numbers as \<open>JSON.stringify\<close> writes them.  In the Firestore adapter a
  document over the size limit is not written a second time: the user is alerted and the
  error is thrown to the caller, with the collection unchanged.
\<close>

theorem saveExpense_over_limit:
  assumes "setItem_expenses br (getAllExpenses st @ [json_expense e]) = Some QuotaExceededError"
    and "storage_length st \<noteq> 0"
    and "currentUser env = Some uid" and "\<not> backend_down env"
    and "max_doc_bytes < doc_bytes env \<lparr>payload = safeExpense e, userId = uid\<rparr>"
  shows "writes (saveExpense br e st) =
           [getAllExpenses st @ [json_expense e],
            getAllExpenses st @ [json_expense (e\<lparr>receiptImage := None\<rparr>)]]
       \<and> json_expense (e\<lparr>receiptImage := None\<rparr>) = (json_expense e)\<lparr>receiptImage := None\<rparr>
       \<and> (case setItem_expenses br (getAllExpenses st @ [json_expense (e\<lparr>receiptImage := None\<rparr>)]) of
            None \<Rightarrow>
              storage_after (saveExpense br e st) =
                st\<lparr>expenses_cell :=
                     Some (getAllExpenses st @ [json_expense (e\<lparr>receiptImage := None\<rparr>)])\<rparr>
              \<and> notices (saveExpense br e st) = [AlertImageNotSaved]
          | Some err \<Rightarrow>
              storage_after (saveExpense br e st) = st
              \<and> notices (saveExpense br e st) = [AlertNoSpaceForExpense])
       \<and> saveExpense_cloud env e db =
           \<lparr>returned = Inl ExceedsMaximumSize, db_after = db,
            shown = [AlertCloudImageTooLarge, ConsoleError]\<rparr>"
  using assms
  by (simp add: saveExpense_def saveExpense_cloud_def isQuotaExceeded_def getCurrentUserId_def
      json_expense_def Let_def split: option.splits)

theorem saveExpense_over_limit_witness:
  "setItem_expenses tight_browser (getAllExpenses diary_storage @ [json_expense refund_expense])
     = Some QuotaExceededError
   \<and> storage_length diary_storage \<noteq> 0
   \<and> currentUser alice_cloud = Some (lit ''alice'') \<and> \<not> backend_down alice_cloud
   \<and> max_doc_bytes < doc_bytes alice_cloud \<lparr>payload = safeExpense refund_expense, userId = lit ''alice''\<rparr>
   \<and> totalTWD refund_expense = NegZero
   \<and> writes (saveExpense tight_browser refund_expense diary_storage) =
       [[json_expense cafe_expense, json_expense later_expense, stored_refund],
        [json_expense cafe_expense, json_expense later_expense,
         stored_refund\<lparr>receiptImage := None\<rparr>]]
   \<and> storage_after (saveExpense tight_browser refund_expense diary_storage) =
       diary_storage\<lparr>expenses_cell :=
         Some [json_expense cafe_expense, json_expense later_expense,
               stored_refund\<lparr>receiptImage := None\<rparr>]\<rparr>
   \<and> totalTWD stored_refund = Some (Val 0)
   \<and> notices (saveExpense tight_browser refund_expense diary_storage) = [AlertImageNotSaved]
   \<and> saveExpense_cloud alice_cloud refund_expense empty_db =
       \<lparr>returned = Inl ExceedsMaximumSize, db_after = empty_db,
        shown = [AlertCloudImageTooLarge, ConsoleError]\<rparr>"
proof -
  have g: "getAllExpenses diary_storage = [json_expense cafe_expense, json_expense later_expense]"
    by (simp add: getAllExpenses_def migrateExpenses_def migrateExpense_def diary_storage_def
        json_expense_def cafe_expense_def later_expense_def)
  have j: "json_expense refund_expense = stored_refund"
    by (simp add: json_expense_def refund_expense_def stored_refund_def json_number_def)
  have a: "setItem_expenses tight_browser (getAllExpenses diary_storage @ [json_expense refund_expense])
     = Some QuotaExceededError"
    by (simp add: g j tight_browser_def stored_refund_def)
  have b: "storage_length diary_storage \<noteq> 0"
    by (simp add: storage_length_def diary_storage_def)
  have c: "currentUser alice_cloud = Some (lit ''alice'')" and d: "\<not> backend_down alice_cloud"
    by (simp_all add: alice_cloud_def)
  have e: "max_doc_bytes < doc_bytes alice_cloud \<lparr>payload = safeExpense refund_expense, userId = lit ''alice''\<rparr>"
    by (simp add: max_doc_bytes_def alice_cloud_def safeExpense_def refund_expense_def)
  have q: "json_expense (refund_expense\<lparr>receiptImage := None\<rparr>) =
      stored_refund\<lparr>receiptImage := None\<rparr>"
    by (simp add: json_expense_def refund_expense_def stored_refund_def json_number_def)
  have r: "setItem_expenses tight_browser
      ([json_expense cafe_expense, json_expense later_expense] @
       [stored_refund\<lparr>receiptImage := None\<rparr>]) = None"
    by (simp add: tight_browser_def json_expense_def cafe_expense_def later_expense_def)
  have t: "totalTWD refund_expense = NegZero" "totalTWD stored_refund = Some (Val 0)"
    by (simp_all add: refund_expense_def stored_refund_def)
  note main = saveExpense_over_limit [OF a b c d e, of empty_db, unfolded g q j r]
  have w: "writes (saveExpense tight_browser refund_expense diary_storage) =
       [[json_expense cafe_expense, json_expense later_expense, stored_refund],
        [json_expense cafe_expense, json_expense later_expense,
         stored_refund\<lparr>receiptImage := None\<rparr>]]"
    using main [THEN conjunct1] by simp
  have n: "storage_after (saveExpense tight_browser refund_expense diary_storage) =
          diary_storage\<lparr>expenses_cell :=
            Some [json_expense cafe_expense, json_expense later_expense,
                  stored_refund\<lparr>receiptImage := None\<rparr>]\<rparr>"
       "notices (saveExpense tight_browser refund_expense diary_storage) = [AlertImageNotSaved]"
    using main [THEN conjunct2, THEN conjunct2, THEN conjunct1] by simp_all
  have cl: "saveExpense_cloud alice_cloud refund_expense empty_db =
       \<lparr>returned = Inl ExceedsMaximumSize, db_after = empty_db,
        shown = [AlertCloudImageTooLarge, ConsoleError]\<rparr>"
    using main [THEN conjunct2, THEN conjunct2, THEN conjunct2] .
  from a b c d e t w n cl show ?thesis by simp
qed

theorem saveExpense_hard_failure_counterexample:
  "returned (saveExpense_cloud alice_cloud photo_expense empty_db) = Inl ExceedsMaximumSize
   \<and> db_after (saveExpense_cloud alice_cloud photo_expense empty_db) = empty_db
   \<and> storage_after (saveExpense full_browser photo_expense diary_storage) = diary_storage
   \<and> notices (saveExpense full_browser photo_expense diary_storage) = [AlertNoSpaceForExpense]"
  by (simp add: saveExpense_cloud_def saveExpense_def getCurrentUserId_def alice_cloud_def
      max_doc_bytes_def safeExpense_def photo_expense_def full_browser_def isQuotaExceeded_def
      storage_length_def diary_storage_def)

subsection \<open>The amounts of a saved expense\<close>








lemma rate_022: "to_f64 (22 / 100) = Val (7926335344172073 / 36028797018963968)"
  using to_f64_pos_cert [of "- 3" "22 / 100" 7926335344172073]
  by (simp add: f64_limit_def power_int_minus)

lemma rate_022_normal: "to_f64 (11 / 50) = Val (7926335344172073 / 36028797018963968)"
  using rate_022 by simp

lemma yen_total: "fmul (Val 1000) (Val (7926335344172073 / 36028797018963968)) = Val 220"
  using to_f64_pos_cert [of 7 "1000 * (7926335344172073 / 36028797018963968)" 7740561859543040]
  by (simp add: fmul_def is_zero_def f64_limit_def power_int_minus)

lemma yen_share: "fdiv (Val 220) (Val 4) = Val 55"
  using to_f64_pos_cert [of 5 55 7740561859543040]
  by (simp add: fdiv_def is_zero_def f64_limit_def power_int_minus)

lemma yen_debt: "fsub (Val 220) (Val 55) = Val 165"
  using to_f64_pos_cert [of 7 165 5805421394657280]
  by (simp add: fsub_def fadd_def is_zero_def f64_limit_def power_int_minus)







lemma handleSave_fields:
  assumes "handleSave env props f = Inr e"
  shows "originalAmount e =
           (if truthy (Number_of (form_amount f)) then Number_of (form_amount f) else Val 0)"
    and "exchangeRate e = form_rate f"
    and "splitCount e = (if form_isSplit f then Math_max (Val 1) (form_totalPeople f) else Val 1)"
    and "totalTWD e = fmul (originalAmount e) (exchangeRate e)"
    and "myShareTWD e = fdiv (totalTWD e) (splitCount e)"
    and "debtAmountTWD e = fsub (totalTWD e) (myShareTWD e)"
  using assms by (auto simp: handleSave_def Let_def split: option.splits)

lemma yen_saved: "amounts_of (handleSave tokyo_env tokyo_props yen_form) = Some (Val 220, Val 55, Val 165)"
  by (simp add: amounts_of_def handleSave_def tokyo_env_def tokyo_props_def yen_form_def
      blank_form_def Number_of_def truthy_def is_zero_def Math_max_def Let_def
      rate_022_normal yen_total yen_share yen_debt)

text \<open>
  Claim C1.  Every expense that \<open>handleSave\<close> builds stores the amount of the form,
  read as \<open>0\<close> when it is empty or not a number, and the rate of the form, and its
  other amounts are computed from these with the arithmetic of JavaScript numbers:
  \<open>totalTWD = originalAmount * exchangeRate\<close>, \<open>myShareTWD = totalTWD / splitCount\<close>
  and \<open>debtAmountTWD = totalTWD - myShareTWD\<close>.  For the amount 1000, the rate 0.22 and
  four people sharing, the stored values are 220, 55 and 165.
\<close>

theorem handleSave_amounts:
  "(\<forall>e. handleSave env props f = Inr e \<longrightarrow>
        originalAmount e =
          (if truthy (Number_of (form_amount f)) then Number_of (form_amount f) else Val 0)
      \<and> exchangeRate e = form_rate f
      \<and> splitCount e = (if form_isSplit f then Math_max (Val 1) (form_totalPeople f) else Val 1)
      \<and> totalTWD e = fmul (originalAmount e) (exchangeRate e)
      \<and> myShareTWD e = fdiv (totalTWD e) (splitCount e)
      \<and> debtAmountTWD e = fsub (totalTWD e) (myShareTWD e))
   \<and> amounts_of (handleSave tokyo_env tokyo_props yen_form) = Some (Val 220, Val 55, Val 165)"
  using handleSave_fields [of env props f] yen_saved by blast

lemma blank_saved:
  "handleSave tokyo_env tokyo_props blank_form =
     Inr \<lparr>expense_id = lit ''e9'', tripId = lit ''T1'', storeName = unnamed_store,
          date = 1704189600000, items = ObjItems [], originalCurrency = lit ''TWD'',
          originalAmount = Val 0, exchangeRate = Val 1, totalTWD = Val 0, paidByMe = True,
          splitCount = Val 1, myShareTWD = Val 0, debtAmountTWD = Val 0, isRepaid = False,
          receiptImage = None\<rparr>"
  by (simp add: handleSave_def tokyo_env_def tokyo_props_def blank_form_def Number_of_def
      truthy_def is_zero_def fmul_def fdiv_def fsub_def fadd_def signed_zero_def
      parseStringToItems_def trim_def Let_def)

theorem handleSave_amounts_witness:
  "handleSave tokyo_env tokyo_props blank_form =
     Inr \<lparr>expense_id = lit ''e9'', tripId = lit ''T1'', storeName = unnamed_store,
          date = 1704189600000, items = ObjItems [], originalCurrency = lit ''TWD'',
          originalAmount = Val 0, exchangeRate = Val 1, totalTWD = Val 0, paidByMe = True,
          splitCount = Val 1, myShareTWD = Val 0, debtAmountTWD = Val 0, isRepaid = False,
          receiptImage = None\<rparr>
   \<and> Val 0 = fmul (Val 0) (Val 1) \<and> Val 0 = fdiv (Val 0) (Val 1) \<and> Val 0 = fsub (Val 0) (Val 0)"
  using handleSave_amounts [of tokyo_env tokyo_props blank_form] blank_saved
  by auto









subsection \<open>The exchange rate resolver\<close>

lemma match_number_in_tokens:
  assumes "match_number s = Some m"
  shows "m \<in> set (number_tokens s)"
proof -
  from assms obtain c cs where a: "dropWhile (\<lambda>c. \<not> num_char c) s = c # cs"
    and m: "m = takeWhile num_char (c # cs)"
    by (auto simp: match_number_def split: list.splits)
  have "number_tokens s = takeWhile num_char (c # cs) # number_tokens (dropWhile num_char cs)"
    by (subst number_tokens.simps) (simp only: a list.case)
  then show ?thesis using m by simp
qed

lemma sources_distinct:
  "lit ''Google Search'' \<noteq> lit ''Default''" "lit ''Google Search'' \<noteq> lit ''Cache (Today)''"
  "lit ''Google Search'' \<noteq> lit ''Error''" "lit ''Google Search'' \<noteq> lit ''Failed''"
  by (simp_all add: lit_def)

lemma fetch_from_lookup:
  assumes "source (answer (fetchExchangeRate env c cell)) = lit ''Google Search''"
  shows "toUpperCase env c \<noteq> lit ''TWD''
       \<and> flt (Val 0) (rate (answer (fetchExchangeRate env c cell)))
       \<and> cell_after (fetchExchangeRate env c cell) =
           saveRateToCache env cell (toUpperCase env c) (rate (answer (fetchExchangeRate env c cell)))
       \<and> lookups (fetchExchangeRate env c cell) = [rate_prompt c]"
  using assms sources_distinct [symmetric]
  by (auto simp: fetchExchangeRate_def Let_def
      split: if_splits option.splits lookup_outcome.splits)

lemma json_number_positive: "flt (Val 0) r \<Longrightarrow> is_finite r \<Longrightarrow> json_number r = Some r"
  by (cases r) (simp_all add: json_number_def)

text \<open>
  Claim C5, as amended.  For every currency other than the home currency: when a call of
  \<open>fetchExchangeRate\<close> has obtained a positive rate from the lookup, the rate is finite,
  the cache held no text that \<open>JSON.parse\<close> rejects and \<open>localStorage\<close> accepted
  the write, then a second call on the same day returns the same rate with the source
  \<open>Cache (Today)\<close>, leaves the cache as it is, and sends nothing to the lookup.
\<close>

theorem second_call_reads_cache:
  assumes "source (answer (fetchExchangeRate env c cell)) = lit ''Google Search''"
    and "cell \<noteq> BrokenCache" and "\<not> setItem_throws env"
    and "is_finite (rate (answer (fetchExchangeRate env c cell)))"
    and "today env' = today env" and "toUpperCase env' = toUpperCase env"
  shows "fetchExchangeRate env' c (cell_after (fetchExchangeRate env c cell)) =
           \<lparr>answer = \<lparr>rate = rate (answer (fetchExchangeRate env c cell)),
                       source = lit ''Cache (Today)''\<rparr>,
            cell_after = cell_after (fetchExchangeRate env c cell),
            lookups = []\<rparr>"
proof -
  define r where "r = rate (answer (fetchExchangeRate env c cell))"
  from fetch_from_lookup [OF assms(1)]
  have nh: "toUpperCase env c \<noteq> lit ''TWD''" and pos: "flt (Val 0) r"
    and ca: "cell_after (fetchExchangeRate env c cell) = saveRateToCache env cell (toUpperCase env c) r"
    by (simp_all add: r_def)
  have j: "json_number r = Some r" using pos assms(4) by (simp add: json_number_positive r_def)
  have "getRateFromCache env' (saveRateToCache env cell (toUpperCase env c) r) (toUpperCase env c)
      = Some r"
    using assms(2,3,5) j
    by (cases cell) (simp_all add: getRateFromCache_def saveRateToCache_def Let_def)
  then show ?thesis
    using nh assms(6) unfolding ca r_def [symmetric]
    by (simp add: fetchExchangeRate_def)
qed


lemma to_f64_overflow:
  assumes "f64_limit \<le> q"
  shows "to_f64 q = PosInf"
proof -
  have l: "2 powi 1024 \<le> q" using assms by (simp add: f64_limit_def del: power_int_numeral)
  then have q: "0 < q" using powi_pos [of 1024] by linarith
  have "round_mag q = None"
  proof (cases "round_mag q")
    case None then show ?thesis .
  next
    case (Some v)
    from round_mag_lower [OF l _ Some] have "2 powi 1024 \<le> v" by simp
    moreover from Some have "v < f64_limit"
      by (auto simp: round_mag_def Let_def split: if_splits)
    ultimately show ?thesis by (simp add: f64_limit_def del: power_int_numeral)
  qed
  with q show ?thesis by (simp add: to_f64_def)
qed

lemma foldl_digits_nines:
  "foldl (\<lambda>acc c. 10 * acc + (c - 48)) a (replicate n 57) = (a + 1) * 10 ^ n - (1::nat)"
proof (induction n arbitrary: a)
  case 0
  then show ?case by simp
next
  case (Suc n)
  have "foldl (\<lambda>acc c. 10 * acc + (c - 48)) a (replicate (Suc n) 57)
      = foldl (\<lambda>acc c. 10 * acc + (c - 48)) (10 * a + 9) (replicate n 57)" by simp
  also have "\<dots> = (10 * a + 9 + 1) * 10 ^ n - 1" by (rule Suc)
  also have "(10 * a + 9 + 1) * 10 ^ n = (a + 1) * 10 ^ Suc n" by (simp add: algebra_simps)
  finally show ?case .
qed

lemma parseFloat_nines: "parseFloat nines = PosInf"
proof -
  have d: "is_digit 57" by (simp add: is_digit_def)
  have t: "takeWhile is_digit nines = nines" "dropWhile is_digit nines = []"
    using d by (simp_all add: nines_def)
  have v: "digits_value nines = 10 ^ 310 - 1"
    unfolding digits_value_def nines_def by (simp add: foldl_digits_nines)
  have "f64_limit \<le> of_nat (10 ^ 310 - 1)"
    by (simp add: f64_limit_def)
  then have "to_f64 (of_nat (digits_value nines)) = PosInf"
    unfolding v by (rule to_f64_overflow)
  moreover have "parseFloat nines = to_f64 (of_nat (digits_value nines))"
    unfolding parseFloat_def t Let_def by (simp add: nines_def digits_value_def)
  ultimately show ?thesis by simp
qed

lemma parseFloat_half: "parseFloat (lit ''0.5'') = Val (1 / 2)"
proof -
  have "to_f64 (1 / 2) = Val (1 / 2)"
    using to_f64_pos_cert [of "- 1" "1 / 2" 4503599627370496]
    by (simp add: f64_limit_def power_int_minus)
  then show ?thesis
    by (simp add: parseFloat_def lit_def is_digit_def digits_value_def Let_def)
qed

lemma jpy_upper: "ascii_upper (lit ''jpy'') = lit ''JPY''" "lit ''JPY'' \<noteq> lit ''TWD''"
  by (simp_all add: ascii_upper_def lit_def)

lemma match_half: "match_number (lit ''0.5'') = Some (lit ''0.5'')"
  by (simp add: match_number_def lit_def num_char_def is_digit_def)

lemma match_nines: "match_number nines = Some nines"
  by (simp add: match_number_def nines_def num_char_def is_digit_def)

lemma nines_not_empty: "nines \<noteq> []"
  by (simp add: nines_def)

lemma first_call_half:
  "fetchExchangeRate (answering (lit ''0.5'')) (lit ''jpy'') NoCache =
     \<lparr>answer = \<lparr>rate = Val (1 / 2), source = lit ''Google Search''\<rparr>,
      cell_after = Cache [lit ''JPY'' \<mapsto> \<lparr>entry_rate = Some (Val (1 / 2)),
                                            entry_date = lit ''2024-01-02''\<rparr>],
      lookups = [rate_prompt (lit ''jpy'')]\<rparr>"
  by (simp add: fetchExchangeRate_def answering_def jpy_upper getRateFromCache_def
      saveRateToCache_def json_number_def match_half parseFloat_half Let_def)
     (simp add: lit_def)

theorem second_call_reads_cache_witness:
  "source (answer (fetchExchangeRate (answering (lit ''0.5'')) (lit ''jpy'') NoCache))
     = lit ''Google Search''
   \<and> rate (answer (fetchExchangeRate (answering (lit ''0.5'')) (lit ''jpy'') NoCache)) = Val (1 / 2)
   \<and> NoCache \<noteq> BrokenCache
   \<and> \<not> setItem_throws (answering (lit ''0.5''))
   \<and> today (answering (lit ''7'')) = today (answering (lit ''0.5''))
   \<and> fetchExchangeRate (answering (lit ''7'')) (lit ''jpy'')
         (cell_after (fetchExchangeRate (answering (lit ''0.5'')) (lit ''jpy'') NoCache)) =
       \<lparr>answer = \<lparr>rate = Val (1 / 2), source = lit ''Cache (Today)''\<rparr>,
        cell_after = cell_after (fetchExchangeRate (answering (lit ''0.5'')) (lit ''jpy'') NoCache),
        lookups = []\<rparr>"
proof -
  have a: "source (answer (fetchExchangeRate (answering (lit ''0.5'')) (lit ''jpy'') NoCache))
     = lit ''Google Search''"
    and r: "rate (answer (fetchExchangeRate (answering (lit ''0.5'')) (lit ''jpy'') NoCache))
     = Val (1 / 2)"
    by (simp_all add: first_call_half)
  have b: "NoCache \<noteq> BrokenCache" by simp
  have c: "\<not> setItem_throws (answering (lit ''0.5''))" by (simp add: answering_def)
  have d: "is_finite (rate (answer (fetchExchangeRate (answering (lit ''0.5'')) (lit ''jpy'') NoCache)))"
    by (simp add: r)
  have e: "today (answering (lit ''7'')) = today (answering (lit ''0.5''))"
    and f: "toUpperCase (answering (lit ''7'')) = toUpperCase (answering (lit ''0.5''))"
    by (simp_all add: answering_def)
  from second_call_reads_cache [OF a b c d e f] a r b c e show ?thesis by simp
qed

lemma first_call_refused:
  "fetchExchangeRate ((answering (lit ''0.5''))\<lparr>setItem_throws := True\<rparr>) (lit ''jpy'') NoCache =
     \<lparr>answer = \<lparr>rate = Val (1 / 2), source = lit ''Google Search''\<rparr>,
      cell_after = NoCache, lookups = [rate_prompt (lit ''jpy'')]\<rparr>"
  by (simp add: fetchExchangeRate_def answering_def jpy_upper getRateFromCache_def
      saveRateToCache_def json_number_def match_half parseFloat_half Let_def)
     (simp add: lit_def)

lemma first_call_broken:
  "fetchExchangeRate (answering (lit ''0.5'')) (lit ''jpy'') BrokenCache =
     \<lparr>answer = \<lparr>rate = Val (1 / 2), source = lit ''Google Search''\<rparr>,
      cell_after = BrokenCache, lookups = [rate_prompt (lit ''jpy'')]\<rparr>"
  by (simp add: fetchExchangeRate_def answering_def jpy_upper getRateFromCache_def
      saveRateToCache_def json_number_def match_half parseFloat_half Let_def)
     (simp add: lit_def)

lemma first_call_nines:
  "fetchExchangeRate (answering nines) (lit ''jpy'') NoCache =
     \<lparr>answer = \<lparr>rate = PosInf, source = lit ''Google Search''\<rparr>,
      cell_after = Cache [lit ''JPY'' \<mapsto> \<lparr>entry_rate = None, entry_date = lit ''2024-01-02''\<rparr>],
      lookups = [rate_prompt (lit ''jpy'')]\<rparr>"
  by (simp add: fetchExchangeRate_def answering_def jpy_upper getRateFromCache_def
      saveRateToCache_def json_number_def match_nines parseFloat_nines nines_not_empty Let_def)

lemma second_call_nines:
  "lookups (fetchExchangeRate (answering nines) (lit ''jpy'')
      (Cache [lit ''JPY'' \<mapsto> \<lparr>entry_rate = None, entry_date = lit ''2024-01-02''\<rparr>]))
     = [rate_prompt (lit ''jpy'')]"
  by (simp add: fetchExchangeRate_def answering_def jpy_upper getRateFromCache_def
      saveRateToCache_def json_number_def match_nines parseFloat_nines nines_not_empty Let_def)

theorem second_call_looks_up_again_counterexample:
  "fetchExchangeRate ((answering (lit ''0.5''))\<lparr>setItem_throws := True\<rparr>) (lit ''jpy'') NoCache =
     \<lparr>answer = \<lparr>rate = Val (1 / 2), source = lit ''Google Search''\<rparr>,
      cell_after = NoCache, lookups = [rate_prompt (lit ''jpy'')]\<rparr>
   \<and> fetchExchangeRate (answering (lit ''0.5'')) (lit ''jpy'') BrokenCache =
     \<lparr>answer = \<lparr>rate = Val (1 / 2), source = lit ''Google Search''\<rparr>,
      cell_after = BrokenCache, lookups = [rate_prompt (lit ''jpy'')]\<rparr>
   \<and> fetchExchangeRate (answering nines) (lit ''jpy'') NoCache =
     \<lparr>answer = \<lparr>rate = PosInf, source = lit ''Google Search''\<rparr>,
      cell_after = Cache [lit ''JPY'' \<mapsto> \<lparr>entry_rate = None, entry_date = lit ''2024-01-02''\<rparr>],
      lookups = [rate_prompt (lit ''jpy'')]\<rparr>
   \<and> lookups (fetchExchangeRate (answering nines) (lit ''jpy'')
        (Cache [lit ''JPY'' \<mapsto> \<lparr>entry_rate = None, entry_date = lit ''2024-01-02''\<rparr>]))
     = [rate_prompt (lit ''jpy'')]"
  using first_call_refused first_call_broken first_call_nines second_call_nines by blast

lemma failed_lookup_result:
  assumes "toUpperCase env c \<noteq> lit ''TWD''"
    and "getRateFromCache env cell (toUpperCase env c) = None"
    and "lookup_failed (generateContent env (rate_prompt c))"
  shows "rate (answer (fetchExchangeRate env c cell)) = Val 1
       \<and> (source (answer (fetchExchangeRate env c cell)) = lit ''Failed''
            \<or> source (answer (fetchExchangeRate env c cell)) = lit ''Error'')
       \<and> cell_after (fetchExchangeRate env c cell) = cell"
proof (cases "generateContent env (rate_prompt c)")
  case LookupThrows
  then show ?thesis using assms(1,2) by (simp add: fetchExchangeRate_def Let_def)
next
  case (Response b t)
  show ?thesis
  proof (cases b)
    case True
    then show ?thesis using assms(1,2) Response by (simp add: fetchExchangeRate_def Let_def)
  next
    case False
    show ?thesis
    proof (cases t)
      case None
      then show ?thesis
        using assms(1,2) Response False by (simp add: fetchExchangeRate_def Let_def)
    next
      case (Some s)
      show ?thesis
      proof (cases "s = []")
        case True
        then show ?thesis
          using assms(1,2) Response False Some by (simp add: fetchExchangeRate_def Let_def)
      next
        case ne: False
        from assms(3) Response False Some
        have all: "list_all (\<lambda>tok. \<not> positive_token tok) (number_tokens s)"
          by (simp add: lookup_failed_def)
        have "\<not> flt (Val 0) (case match_number s of None \<Rightarrow> Val 0 | Some m \<Rightarrow> parseFloat m)"
        proof (cases "match_number s")
          case None
          then show ?thesis by simp
        next
          case (Some m)
          from match_number_in_tokens [OF this] all have "\<not> flt (Val 0) (parseFloat m)"
            by (simp add: list_all_iff positive_token_def)
          with Some show ?thesis by simp
        qed
        then show ?thesis
          using assms(1,2) Response False Some ne by (simp add: fetchExchangeRate_def Let_def)
      qed
    qed
  qed
qed

lemma cache_miss_looks_up:
  assumes "toUpperCase env c \<noteq> lit ''TWD''"
    and "getRateFromCache env cell (toUpperCase env c) = None"
  shows "lookups (fetchExchangeRate env c cell) = [rate_prompt c]"
proof (cases "generateContent env (rate_prompt c)")
  case LookupThrows
  then show ?thesis using assms by (simp add: fetchExchangeRate_def Let_def)
next
  case (Response b t)
  then show ?thesis
    using assms by (cases t) (simp_all add: fetchExchangeRate_def Let_def)
qed

lemma getRateFromCache_same_day:
  "today env' = today env \<Longrightarrow> getRateFromCache env' cell k = getRateFromCache env cell k"
  by (cases cell) (simp_all add: getRateFromCache_def split: option.splits)

text \<open>
  Claim C9.  For every currency other than the home currency whose rate is not in the cache
  for the day: when the lookup throws, or its response has no text or no positive numeric
  token, \<open>fetchExchangeRate\<close> returns the rate 1 with the source \<open>Failed\<close> or
  \<open>Error\<close> and leaves the cache unchanged, and a further call on the same day sends the
  prompt to the lookup again.
\<close>

theorem failed_lookup_is_not_cached:
  assumes "toUpperCase env c \<noteq> lit ''TWD''"
    and "getRateFromCache env cell (toUpperCase env c) = None"
    and "lookup_failed (generateContent env (rate_prompt c))"
    and "today env' = today env" and "toUpperCase env' = toUpperCase env"
  shows "rate (answer (fetchExchangeRate env c cell)) = Val 1
       \<and> (source (answer (fetchExchangeRate env c cell)) = lit ''Failed''
            \<or> source (answer (fetchExchangeRate env c cell)) = lit ''Error'')
       \<and> cell_after (fetchExchangeRate env c cell) = cell
       \<and> lookups (fetchExchangeRate env c cell) = [rate_prompt c]
       \<and> lookups (fetchExchangeRate env' c (cell_after (fetchExchangeRate env c cell)))
           = [rate_prompt c]"
proof -
  note r = failed_lookup_result [OF assms(1,2,3)]
  have "getRateFromCache env' cell (toUpperCase env' c) = None"
    using getRateFromCache_same_day [OF assms(4), of cell "toUpperCase env c"] assms(2,5) by simp
  moreover have "toUpperCase env' c \<noteq> lit ''TWD''" using assms(1,5) by simp
  ultimately have "lookups (fetchExchangeRate env' c cell) = [rate_prompt c]"
    by (intro cache_miss_looks_up)
  with r cache_miss_looks_up [OF assms(1,2)] show ?thesis by simp
qed

lemma tokens_na: "number_tokens (lit ''n/a'') = []"
  by (subst number_tokens.simps) (simp add: lit_def num_char_def is_digit_def)

theorem failed_lookup_is_not_cached_witness:
  "toUpperCase (answering (lit ''n/a'')) (lit ''jpy'') \<noteq> lit ''TWD''
   \<and> getRateFromCache (answering (lit ''n/a'')) NoCache
        (toUpperCase (answering (lit ''n/a'')) (lit ''jpy'')) = None
   \<and> lookup_failed (generateContent (answering (lit ''n/a'')) (rate_prompt (lit ''jpy'')))
   \<and> fetchExchangeRate (answering (lit ''n/a'')) (lit ''jpy'') NoCache =
       \<lparr>answer = \<lparr>rate = Val 1, source = lit ''Failed''\<rparr>, cell_after = NoCache,
        lookups = [rate_prompt (lit ''jpy'')]\<rparr>
   \<and> lookups (fetchExchangeRate (answering (lit ''0.5'')) (lit ''jpy'')
        (cell_after (fetchExchangeRate (answering (lit ''n/a'')) (lit ''jpy'') NoCache)))
       = [rate_prompt (lit ''jpy'')]"
proof -
  have a: "toUpperCase (answering (lit ''n/a'')) (lit ''jpy'') \<noteq> lit ''TWD''"
    by (simp add: answering_def jpy_upper)
  have b: "getRateFromCache (answering (lit ''n/a'')) NoCache
        (toUpperCase (answering (lit ''n/a'')) (lit ''jpy'')) = None"
    by (simp add: getRateFromCache_def)
  have c: "lookup_failed (generateContent (answering (lit ''n/a'')) (rate_prompt (lit ''jpy'')))"
    by (simp add: lookup_failed_def answering_def tokens_na)
  have d: "today (answering (lit ''0.5'')) = today (answering (lit ''n/a''))"
    and e: "toUpperCase (answering (lit ''0.5'')) = toUpperCase (answering (lit ''n/a''))"
    by (simp_all add: answering_def)
  have f: "fetchExchangeRate (answering (lit ''n/a'')) (lit ''jpy'') NoCache =
       \<lparr>answer = \<lparr>rate = Val 1, source = lit ''Failed''\<rparr>, cell_after = NoCache,
        lookups = [rate_prompt (lit ''jpy'')]\<rparr>"
    by (simp add: fetchExchangeRate_def answering_def jpy_upper getRateFromCache_def
        match_number_def Let_def)
       (simp add: lit_def num_char_def is_digit_def)
  from failed_lookup_is_not_cached [OF a b c d e] a b c f show ?thesis by simp
qed

subsection \<open>The receipt analysis gateway\<close>

text \<open>
  Claim C4, as amended.  For every image, when the model is called (the daily limit does not
  stop the call): if the call throws, the response has no text, or the text is not parsable
  JSON, \<open>analyzeReceipt\<close> does not throw but returns the fallback record, with a
  placeholder store name, the date of the day, the total 0, the currency TWD, one
  placeholder item and the rate 1; if the text is parsable JSON, \<open>analyzeReceipt\<close>
  returns the value \<open>JSON.parse\<close> reads from it, whatever its shape.
\<close>

theorem analyzeReceipt_masks_failure:
  assumes "model_called env cell"
  shows "(failure_caught env (model env img) \<longrightarrow>
            fst (analyzeReceipt env img cell) = Inr (AnalysisResult (fallback_result env)))
       \<and> (\<forall>text v. model env img = Answer (Some text) \<and> text \<noteq> [] \<and> JSON_parse env text = Some v \<longrightarrow>
            fst (analyzeReceipt env img cell) = Inr v)
       \<and> (failure_caught env (model env img)
            \<or> (\<exists>text v. model env img = Answer (Some text) \<and> text \<noteq> [] \<and> JSON_parse env text = Some v))
       \<and> res_date (fallback_result env) = usage_today env
       \<and> res_totalAmount (fallback_result env) = Val 0
       \<and> res_currency (fallback_result env) = lit ''TWD''
       \<and> length (res_items (fallback_result env)) = 1
       \<and> res_exchangeRateToTWD (fallback_result env) = Val 1"
proof -
  have 1: "failure_caught env (model env img) \<longrightarrow>
            fst (analyzeReceipt env img cell) = Inr (AnalysisResult (fallback_result env))"
    using assms
    by (auto simp: analyzeReceipt_def model_called_def failure_caught_def Let_def
        split: model_outcome.splits option.splits)
  have 2: "\<forall>text v. model env img = Answer (Some text) \<and> text \<noteq> [] \<and> JSON_parse env text = Some v \<longrightarrow>
            fst (analyzeReceipt env img cell) = Inr v"
    using assms by (auto simp: analyzeReceipt_def model_called_def Let_def)
  have 3: "failure_caught env (model env img)
            \<or> (\<exists>text v. model env img = Answer (Some text) \<and> text \<noteq> [] \<and> JSON_parse env text = Some v)"
    by (auto simp: failure_caught_def split: model_outcome.splits option.splits)
  from 1 2 3 show ?thesis
    by (simp add: fallback_result_def)
qed

theorem analyzeReceipt_masks_failure_witness:
  "model_called offline_gateway None
   \<and> failure_caught offline_gateway (model offline_gateway (lit ''data:image/jpeg;base64,AAAA''))
   \<and> analyzeReceipt offline_gateway (lit ''data:image/jpeg;base64,AAAA'') None =
       (Inr (AnalysisResult (fallback_result offline_gateway)), None)
   \<and> res_date (fallback_result offline_gateway) = lit ''2024-01-02''
   \<and> model_called (replying receipt_text) None
   \<and> model (replying receipt_text) (lit ''data:image/jpeg;base64,AAAA'') = Answer (Some receipt_text)
   \<and> receipt_text \<noteq> []
   \<and> fst (analyzeReceipt (replying receipt_text) (lit ''data:image/jpeg;base64,AAAA'') None) =
       Inr (AnalysisResult
             \<lparr>res_storeName = lit ''Cafe'', res_date = lit ''2024-01-01'',
              res_totalAmount = Val 1000, res_currency = lit ''JPY'', res_items = [],
              res_exchangeRateToTWD = Val (1 / 4)\<rparr>)"
proof -
  have a: "model_called offline_gateway None"
    by (simp add: model_called_def hasReachedDailyLimit_def getApiUsageToday_def
        DAILY_API_LIMIT_def offline_gateway_def)
  have b: "failure_caught offline_gateway (model offline_gateway (lit ''data:image/jpeg;base64,AAAA''))"
    by (simp add: failure_caught_def offline_gateway_def)
  have c: "snd (analyzeReceipt offline_gateway (lit ''data:image/jpeg;base64,AAAA'') None) = None"
    by (simp add: analyzeReceipt_def offline_gateway_def has_key_def hasReachedDailyLimit_def
        getApiUsageToday_def DAILY_API_LIMIT_def)
  from analyzeReceipt_masks_failure [OF a, of "lit ''data:image/jpeg;base64,AAAA''"] b
  have d: "fst (analyzeReceipt offline_gateway (lit ''data:image/jpeg;base64,AAAA'') None) =
      Inr (AnalysisResult (fallback_result offline_gateway))"
    and e: "res_date (fallback_result offline_gateway) = lit ''2024-01-02''"
    by (simp_all add: offline_gateway_def)
  have a': "model_called (replying receipt_text) None"
    by (simp add: model_called_def hasReachedDailyLimit_def getApiUsageToday_def
        DAILY_API_LIMIT_def offline_gateway_def replying_def)
  have m: "model (replying receipt_text) (lit ''data:image/jpeg;base64,AAAA'') = Answer (Some receipt_text)"
    by (simp add: replying_def)
  have n: "receipt_text \<noteq> []"
    by (simp add: receipt_text_def lit_def)
  have p: "JSON_parse (replying receipt_text) receipt_text =
      Some (AnalysisResult
             \<lparr>res_storeName = lit ''Cafe'', res_date = lit ''2024-01-01'',
              res_totalAmount = Val 1000, res_currency = lit ''JPY'', res_items = [],
              res_exchangeRateToTWD = Val (1 / 4)\<rparr>)"
    by (simp add: replying_def offline_gateway_def json_reader_def receipt_text_def lit_def)
  from analyzeReceipt_masks_failure [OF a', of "lit ''data:image/jpeg;base64,AAAA''"] m n p
  have f: "fst (analyzeReceipt (replying receipt_text) (lit ''data:image/jpeg;base64,AAAA'') None) =
       Inr (AnalysisResult
             \<lparr>res_storeName = lit ''Cafe'', res_date = lit ''2024-01-01'',
              res_totalAmount = Val 1000, res_currency = lit ''JPY'', res_items = [],
              res_exchangeRateToTWD = Val (1 / 4)\<rparr>)"
    by blast
  from a b c d e a' m n f show ?thesis
    by (simp add: prod_eq_iff)
qed

theorem analyzeReceipt_returns_null_counterexample:
  "model_called (replying (lit ''null'')) None
   \<and> model_failed (replying (lit ''null''))
        (model (replying (lit ''null'')) (lit ''data:image/jpeg;base64,AAAA''))
   \<and> fst (analyzeReceipt (replying (lit ''null'')) (lit ''data:image/jpeg;base64,AAAA'') None) =
       Inr JsonNull
   \<and> fst (analyzeReceipt (replying (lit ''null'')) (lit ''data:image/jpeg;base64,AAAA'') None) \<noteq>
       Inr (AnalysisResult (fallback_result (replying (lit ''null''))))"
  by (simp add: model_called_def model_failed_def analyzeReceipt_def replying_def
      offline_gateway_def json_reader_def has_key_def hasReachedDailyLimit_def
      getApiUsageToday_def DAILY_API_LIMIT_def incrementApiUsage_def lit_def Let_def)

end
